theory Spec2Isabelle
  imports Main
begin

section \<open>Strings and platform errors\<close>

text \<open>
  A JavaScript string is a sequence of UTF-16 code units. A code unit is modelled by its
  number, so that a character beyond Latin-1 (which \<open>btoa\<close> rejects) can be written.
\<close>

type_synonym jsstring = "nat list"

definition ascii :: "string \<Rightarrow> jsstring" where
  "ascii s = map of_char s"

datatype js_error =
    InvalidCharacterError
  | InvalidStateError
  | SyntaxError
  | RangeError
  | TypeError

section \<open>The platform's \<open>btoa\<close> and \<open>atob\<close>\<close>

text \<open>
  \<open>btoa\<close> throws InvalidCharacterError when a code unit of its argument is above
  0xFF; otherwise it returns the base64 encoding (RFC 4648, with padding) of the
  argument's code units taken as bytes.
\<close>

definition b64_char :: "nat \<Rightarrow> nat" where
  "b64_char n =
     (if n < 26 then 65 + n
      else if n < 52 then 71 + n
      else if n < 62 then n - 4
      else if n = 62 then 43
      else 47)"

fun base64_encode :: "nat list \<Rightarrow> nat list" where
  "base64_encode (a # b # c # rest) =
     [b64_char (a div 4), b64_char ((a mod 4) * 16 + b div 16),
      b64_char ((b mod 16) * 4 + c div 64), b64_char (c mod 64)] @ base64_encode rest"
| "base64_encode [a, b] =
     [b64_char (a div 4), b64_char ((a mod 4) * 16 + b div 16),
      b64_char ((b mod 16) * 4), 61]"
| "base64_encode [a] = [b64_char (a div 4), b64_char ((a mod 4) * 16), 61, 61]"
| "base64_encode [] = []"

definition btoa :: "jsstring \<Rightarrow> js_error + jsstring" where
  "btoa s =
     (if list_ex (\<lambda>c. 255 < c) s then Inl InvalidCharacterError
      else Inr (base64_encode s))"

text \<open>
  \<open>atob\<close> is the forgiving base64 decoder of the HTML standard: ASCII whitespace is
  removed; when the length is a multiple of four, one or two trailing \<open>=\<close> are removed;
  a length of 1 modulo 4 or a character outside the alphabet throws
  InvalidCharacterError; the sextets are then regrouped into bytes, the bits left over
  at the end being dropped.
\<close>

definition is_ascii_whitespace :: "nat \<Rightarrow> bool" where
  "is_ascii_whitespace c = (c = 9 \<or> c = 10 \<or> c = 12 \<or> c = 13 \<or> c = 32)"

definition strip_padding :: "nat list \<Rightarrow> nat list" where
  "strip_padding d =
     (if length d mod 4 = 0 \<and> d \<noteq> [] \<and> last d = 61 then
        (if butlast d \<noteq> [] \<and> last (butlast d) = 61 then butlast (butlast d)
         else butlast d)
      else d)"

definition b64_index :: "nat \<Rightarrow> nat option" where
  "b64_index c =
     (if 65 \<le> c \<and> c \<le> 90 then Some (c - 65)
      else if 97 \<le> c \<and> c \<le> 122 then Some (c - 71)
      else if 48 \<le> c \<and> c \<le> 57 then Some (c + 4)
      else if c = 43 then Some 62
      else if c = 47 then Some 63
      else None)"

fun b64_indices :: "nat list \<Rightarrow> nat list option" where
  "b64_indices [] = Some []"
| "b64_indices (c # cs) =
     (case b64_index c of
        None \<Rightarrow> None
      | Some i \<Rightarrow> (case b64_indices cs of None \<Rightarrow> None | Some is \<Rightarrow> Some (i # is)))"

fun decode_sextets :: "nat list \<Rightarrow> nat list" where
  "decode_sextets (a # b # c # d # rest) =
     [a * 4 + b div 16, (b mod 16) * 16 + c div 4, (c mod 4) * 64 + d] @ decode_sextets rest"
| "decode_sextets [a, b, c] = [a * 4 + b div 16, (b mod 16) * 16 + c div 4]"
| "decode_sextets [a, b] = [a * 4 + b div 16]"
| "decode_sextets [a] = []"
| "decode_sextets [] = []"

definition atob :: "jsstring \<Rightarrow> js_error + jsstring" where
  "atob data =
     (let d = strip_padding (filter (\<lambda>c. \<not> is_ascii_whitespace c) data) in
      if length d mod 4 = 1 then Inl InvalidCharacterError
      else (case b64_indices d of
              None \<Rightarrow> Inl InvalidCharacterError
            | Some is \<Rightarrow> Inr (decode_sextets is)))"

section \<open>The platform's JSON\<close>

text \<open>
  A JavaScript value as far as \<open>JSON.parse\<close> can produce one, and \<open>undefined\<close> for a
  missing property. A number is carried as its lexeme: the component never computes with
  a number it received. An object is its properties in creation order, keys unique.
\<close>

datatype jsval =
    JUndefined
  | JNull
  | JBool bool
  | JNum jsstring
  | JStr jsstring
  | JArr "jsval list"
  | JObj "(jsstring \<times> jsval) list"

text \<open>Property read \<open>v.k\<close> for \<open>k\<close> among \<open>id\<close>, \<open>content\<close>: only an object can hold it.\<close>

definition get_prop :: "jsval \<Rightarrow> jsstring \<Rightarrow> jsval" where
  "get_prop v k =
     (case v of
        JObj kvs \<Rightarrow> (case map_of kvs k of None \<Rightarrow> JUndefined | Some x \<Rightarrow> x)
      | _ \<Rightarrow> JUndefined)"

text \<open>Defining a property: an existing key keeps its place and takes the new value.\<close>

fun set_prop :: "jsstring \<Rightarrow> jsval \<Rightarrow> (jsstring \<times> jsval) list \<Rightarrow> (jsstring \<times> jsval) list" where
  "set_prop k v [] = [(k, v)]"
| "set_prop k v ((k', v') # kvs) =
     (if k' = k then (k, v) # kvs else (k', v') # set_prop k v kvs)"

subsection \<open>\<open>JSON.stringify\<close>\<close>

definition hex_digit :: "nat \<Rightarrow> nat" where
  "hex_digit n = (if n < 10 then 48 + n else 87 + n)"

definition unicode_escape :: "nat \<Rightarrow> jsstring" where
  "unicode_escape c =
     [92, 117, hex_digit (c div 4096 mod 16), hex_digit (c div 256 mod 16),
      hex_digit (c div 16 mod 16), hex_digit (c mod 16)]"

definition escape_unit :: "nat \<Rightarrow> jsstring" where
  "escape_unit c =
     (if c = 8 then [92, 98]
      else if c = 9 then [92, 116]
      else if c = 10 then [92, 110]
      else if c = 12 then [92, 102]
      else if c = 13 then [92, 114]
      else if c = 34 then [92, 34]
      else if c = 92 then [92, 92]
      else if c < 32 then unicode_escape c
      else [c])"

definition is_high_surrogate :: "nat \<Rightarrow> bool" where
  "is_high_surrogate c = (55296 \<le> c \<and> c \<le> 56319)"

definition is_low_surrogate :: "nat \<Rightarrow> bool" where
  "is_low_surrogate c = (56320 \<le> c \<and> c \<le> 57343)"

text \<open>A surrogate pair is kept; a lone surrogate is written as a \<open>\u\<close> escape.\<close>

fun quote_units :: "jsstring \<Rightarrow> jsstring" where
  "quote_units [] = []"
| "quote_units [c] =
     (if is_high_surrogate c \<or> is_low_surrogate c then unicode_escape c else escape_unit c)"
| "quote_units (c # d # ds) =
     (if is_high_surrogate c then
        (if is_low_surrogate d then c # d # quote_units ds
         else unicode_escape c @ quote_units (d # ds))
      else if is_low_surrogate c then unicode_escape c @ quote_units (d # ds)
      else escape_unit c @ quote_units (d # ds))"

definition QuoteJSONString :: "jsstring \<Rightarrow> jsstring" where
  "QuoteJSONString s = [34] @ quote_units s @ [34]"

fun join_comma :: "jsstring list \<Rightarrow> jsstring" where
  "join_comma [] = []"
| "join_comma [x] = x"
| "join_comma (x # y # ys) = x @ [44] @ join_comma (y # ys)"

text \<open>
  The text of a value. In an array \<open>undefined\<close> is written \<open>null\<close>; a property whose value
  is \<open>undefined\<close> is left out.
\<close>

fun json_text :: "jsval \<Rightarrow> jsstring"
  and json_elements :: "jsval list \<Rightarrow> jsstring list"
  and json_members :: "(jsstring \<times> jsval) list \<Rightarrow> jsstring list" where
  "json_text JUndefined = ascii ''null''"
| "json_text JNull = ascii ''null''"
| "json_text (JBool b) = (if b then ascii ''true'' else ascii ''false'')"
| "json_text (JNum n) = n"
| "json_text (JStr s) = QuoteJSONString s"
| "json_text (JArr vs) = [91] @ join_comma (json_elements vs) @ [93]"
| "json_text (JObj kvs) = [123] @ join_comma (json_members kvs) @ [125]"
| "json_elements [] = []"
| "json_elements (v # vs) = json_text v # json_elements vs"
| "json_members [] = []"
| "json_members ((k, v) # kvs) =
     (if v = JUndefined then json_members kvs
      else (QuoteJSONString k @ [58] @ json_text v) # json_members kvs)"

text \<open>\<open>JSON.stringify\<close> of an object literal: always a string.\<close>

definition JSON_stringify_object :: "(jsstring \<times> jsval) list \<Rightarrow> jsstring" where
  "JSON_stringify_object kvs = json_text (JObj kvs)"

subsection \<open>\<open>JSON.parse\<close>\<close>

definition is_json_ws :: "nat \<Rightarrow> bool" where
  "is_json_ws c = (c = 32 \<or> c = 9 \<or> c = 10 \<or> c = 13)"

definition skip_ws :: "jsstring \<Rightarrow> jsstring" where
  "skip_ws s = dropWhile is_json_ws s"

definition is_digit :: "nat \<Rightarrow> bool" where
  "is_digit c = (48 \<le> c \<and> c \<le> 57)"

definition hex_val :: "nat \<Rightarrow> nat option" where
  "hex_val c =
     (if 48 \<le> c \<and> c \<le> 57 then Some (c - 48)
      else if 65 \<le> c \<and> c \<le> 70 then Some (c - 55)
      else if 97 \<le> c \<and> c \<le> 102 then Some (c - 87)
      else None)"

definition simple_escape :: "nat \<Rightarrow> nat option" where
  "simple_escape e =
     (if e = 34 then Some 34
      else if e = 92 then Some 92
      else if e = 47 then Some 47
      else if e = 98 then Some 8
      else if e = 102 then Some 12
      else if e = 110 then Some 10
      else if e = 114 then Some 13
      else if e = 116 then Some 9
      else None)"

definition hex4 :: "nat \<Rightarrow> nat \<Rightarrow> nat \<Rightarrow> nat \<Rightarrow> nat option" where
  "hex4 a b c d =
     (case (hex_val a, hex_val b, hex_val c, hex_val d) of
        (Some w, Some x, Some y, Some z) \<Rightarrow> Some (w * 4096 + x * 256 + y * 16 + z)
      | _ \<Rightarrow> None)"

definition cons_result :: "nat \<Rightarrow> (jsstring \<times> jsstring) option \<Rightarrow> (jsstring \<times> jsstring) option" where
  "cons_result u r = (case r of None \<Rightarrow> None | Some (s, rest) \<Rightarrow> Some (u # s, rest))"

text \<open>The characters of a string after its opening quote, and the text after it.\<close>

fun parse_string_body :: "jsstring \<Rightarrow> (jsstring \<times> jsstring) option" where
  "parse_string_body [] = None"
| "parse_string_body [c] = (if c = 34 then Some ([], []) else None)"
| "parse_string_body (c # e # es) =
     (if c = 34 then Some ([], e # es)
      else if c = 92 then
        (if e = 117 then
           (case es of
              h1 # h2 # h3 # h4 # r \<Rightarrow>
                (case hex4 h1 h2 h3 h4 of
                   None \<Rightarrow> None
                 | Some u \<Rightarrow> cons_result u (parse_string_body r))
            | _ \<Rightarrow> None)
         else (case simple_escape e of
                 None \<Rightarrow> None
               | Some u \<Rightarrow> cons_result u (parse_string_body es)))
      else if c < 32 then None
      else cons_result c (parse_string_body (e # es)))"

text \<open>
  A number: an optional minus, \<open>0\<close> or digits not starting with \<open>0\<close>, an optional
  fraction, an optional exponent. The result is its lexeme and the text after it.
\<close>

definition take_digits :: "jsstring \<Rightarrow> (jsstring \<times> jsstring) option" where
  "take_digits s =
     (if takeWhile is_digit s = [] then None
      else Some (takeWhile is_digit s, dropWhile is_digit s))"

definition parse_int_part :: "jsstring \<Rightarrow> (jsstring \<times> jsstring) option" where
  "parse_int_part s =
     (case s of
        [] \<Rightarrow> None
      | c # cs \<Rightarrow> if c = 48 then Some ([48], cs) else take_digits s)"

definition parse_fraction :: "jsstring \<Rightarrow> (jsstring \<times> jsstring) option" where
  "parse_fraction s =
     (case s of
        [] \<Rightarrow> Some ([], s)
      | c # cs \<Rightarrow>
          if c = 46 then
            (case take_digits cs of None \<Rightarrow> None | Some (ds, r) \<Rightarrow> Some (46 # ds, r))
          else Some ([], s))"

definition parse_exponent :: "jsstring \<Rightarrow> (jsstring \<times> jsstring) option" where
  "parse_exponent s =
     (case s of
        [] \<Rightarrow> Some ([], s)
      | c # cs \<Rightarrow>
          if c = 101 \<or> c = 69 then
            (case cs of
               [] \<Rightarrow> None
             | d # ds \<Rightarrow>
                 if d = 43 \<or> d = 45 then
                   (case take_digits ds of
                      None \<Rightarrow> None
                    | Some (xs, r) \<Rightarrow> Some (c # d # xs, r))
                 else
                   (case take_digits cs of
                      None \<Rightarrow> None
                    | Some (xs, r) \<Rightarrow> Some (c # xs, r)))
          else Some ([], s))"

definition parse_number :: "jsstring \<Rightarrow> (jsstring \<times> jsstring) option" where
  "parse_number s =
     (let sign = (if s \<noteq> [] \<and> hd s = 45 then [45] else []);
          s1 = (if s \<noteq> [] \<and> hd s = 45 then tl s else s)
      in case parse_int_part s1 of
           None \<Rightarrow> None
         | Some (ip, s2) \<Rightarrow>
             (case parse_fraction s2 of
                None \<Rightarrow> None
              | Some (fp, s3) \<Rightarrow>
                  (case parse_exponent s3 of
                     None \<Rightarrow> None
                   | Some (ep, s4) \<Rightarrow> Some (sign @ ip @ fp @ ep, s4))))"

definition parse_literal :: "jsstring \<Rightarrow> (jsval \<times> jsstring) option" where
  "parse_literal s =
     (if take 4 s = ascii ''true'' then Some (JBool True, drop 4 s)
      else if take 5 s = ascii ''false'' then Some (JBool False, drop 5 s)
      else if take 4 s = ascii ''null'' then Some (JNull, drop 4 s)
      else (case parse_number s of None \<Rightarrow> None | Some (n, r) \<Rightarrow> Some (JNum n, r)))"

text \<open>
  The recursive descent. The first argument bounds the depth of the recursion; a value of
  \<open>n\<close> characters needs at most \<open>2 * n + 2\<close>, which \<open>JSON_parse\<close> supplies.
\<close>

fun parse_value :: "nat \<Rightarrow> jsstring \<Rightarrow> (jsval \<times> jsstring) option"
  and parse_elements :: "nat \<Rightarrow> jsstring \<Rightarrow> (jsval list \<times> jsstring) option"
  and parse_members :: "nat \<Rightarrow> jsstring \<Rightarrow> ((jsstring \<times> jsval) list \<times> jsstring) option" where
  "parse_value 0 s = None"
| "parse_value (Suc n) s =
     (case skip_ws s of
        [] \<Rightarrow> None
      | c # cs \<Rightarrow>
          if c = 34 then
            (case parse_string_body cs of None \<Rightarrow> None | Some (str, r) \<Rightarrow> Some (JStr str, r))
          else if c = 91 then
            (case skip_ws cs of
               [] \<Rightarrow> None
             | d # ds \<Rightarrow>
                 if d = 93 then Some (JArr [], ds)
                 else (case parse_elements n cs of
                         None \<Rightarrow> None
                       | Some (vs, r) \<Rightarrow> Some (JArr vs, r)))
          else if c = 123 then
            (case skip_ws cs of
               [] \<Rightarrow> None
             | d # ds \<Rightarrow>
                 if d = 125 then Some (JObj [], ds)
                 else (case parse_members n cs of
                         None \<Rightarrow> None
                       | Some (kvs, r) \<Rightarrow>
                           Some (JObj (fold (\<lambda>kv. set_prop (fst kv) (snd kv)) kvs []), r)))
          else parse_literal (c # cs))"
| "parse_elements 0 s = None"
| "parse_elements (Suc n) s =
     (case parse_value n s of
        None \<Rightarrow> None
      | Some (v, r) \<Rightarrow>
          (case skip_ws r of
             [] \<Rightarrow> None
           | c # cs \<Rightarrow>
               if c = 93 then Some ([v], cs)
               else if c = 44 then
                 (case parse_elements n cs of
                    None \<Rightarrow> None
                  | Some (vs, r') \<Rightarrow> Some (v # vs, r'))
               else None))"
| "parse_members 0 s = None"
| "parse_members (Suc n) s =
     (case skip_ws s of
        [] \<Rightarrow> None
      | q # qs \<Rightarrow>
          if q = 34 then
            (case parse_string_body qs of
               None \<Rightarrow> None
             | Some (k, r) \<Rightarrow>
                 (case skip_ws r of
                    [] \<Rightarrow> None
                  | c # cs \<Rightarrow>
                      if c = 58 then
                        (case parse_value n cs of
                           None \<Rightarrow> None
                         | Some (v, r') \<Rightarrow>
                             (case skip_ws r' of
                                [] \<Rightarrow> None
                              | e # es \<Rightarrow>
                                  if e = 125 then Some ([(k, v)], es)
                                  else if e = 44 then
                                    (case parse_members n es of
                                       None \<Rightarrow> None
                                     | Some (kvs, r'') \<Rightarrow> Some ((k, v) # kvs, r''))
                                  else None))
                      else None))
          else None)"

definition JSON_parse :: "jsstring \<Rightarrow> js_error + jsval" where
  "JSON_parse s =
     (case parse_value (2 * length s + 2) s of
        None \<Rightarrow> Inl SyntaxError
      | Some (v, r) \<Rightarrow> if skip_ws r = [] then Inr v else Inl SyntaxError)"

section \<open>The platform's \<open>Date\<close>\<close>

text \<open>
  A \<open>Date\<close> is its time value, the milliseconds since the epoch. \<open>toISOString\<close> throws
  RangeError outside the range of time values and otherwise prints
  \<open>YYYY-MM-DDTHH:mm:ss.sssZ\<close>, the year with a sign and six digits when it is not within
  0 to 9999.
\<close>

fun digits :: "nat \<Rightarrow> nat \<Rightarrow> jsstring" where
  "digits 0 n = []"
| "digits (Suc w) n = digits w (n div 10) @ [48 + n mod 10]"

definition civil_from_days :: "int \<Rightarrow> int \<times> int \<times> int" where
  "civil_from_days z0 =
     (let z = z0 + 719468;
          era = z div 146097;
          doe = z mod 146097;
          yoe = (doe - doe div 1460 + doe div 36524 - doe div 146096) div 365;
          y = yoe + era * 400;
          doy = doe - (365 * yoe + yoe div 4 - yoe div 100);
          mp = (5 * doy + 2) div 153;
          d = doy - (153 * mp + 2) div 5 + 1;
          m = (if mp < 10 then mp + 3 else mp - 9)
      in (if m \<le> 2 then y + 1 else y, m, d))"

definition year_text :: "int \<Rightarrow> jsstring" where
  "year_text y =
     (if 0 \<le> y \<and> y \<le> 9999 then digits 4 (nat y)
      else if y < 0 then 45 # digits 6 (nat (- y))
      else 43 # digits 6 (nat y))"

definition toISOString :: "int \<Rightarrow> js_error + jsstring" where
  "toISOString t =
     (if t < - 8640000000000000 \<or> 8640000000000000 < t then Inl RangeError
      else
        (let day = t div 86400000;
             ms = nat (t mod 86400000)
         in case civil_from_days day of
              (y, m, d) \<Rightarrow>
                Inr (year_text y @ [45] @ digits 2 (nat m) @ [45] @ digits 2 (nat d) @ [84]
                     @ digits 2 (ms div 3600000) @ [58]
                     @ digits 2 (ms div 60000 mod 60) @ [58]
                     @ digits 2 (ms div 1000 mod 60) @ [46]
                     @ digits 3 (ms mod 1000) @ [90])))"

section \<open>The data model of \<open>ChatUi.tsx\<close>\<close>

datatype role = User | Ai

datatype status = Sending | Sent | Failed

text \<open>
  \<open>interface Message\<close>. The field \<open>id\<close> is \<open>msg_id\<close> here. At run time \<open>content\<close> holds
  whatever \<open>ws.onmessage\<close> stored, so it is a JavaScript value; \<open>timestamp\<close> is the time
  value of the \<open>Date\<close>; \<open>retryCount\<close> is optional.
\<close>

record message =
  msg_id :: jsstring
  content :: jsval
  role :: role
  timestamp :: int
  status :: status
  retryCount :: "nat option"

text \<open>
  The props the component reads after construction of the socket. \<open>websocketUrl\<close> and
  \<open>authToken\<close> only reach the \<open>WebSocket\<close> constructor, whose outcome is an argument of
  \<open>connectWebSocket\<close> below.
\<close>

record props =
  encryptionKey :: jsstring
  maxRetries :: nat
  retryDelay :: int
  maxRetryDelay :: int
  enableExponentialBackoff :: bool

definition defaultProps :: props where
  "defaultProps =
     \<lparr>encryptionKey = [], maxRetries = 5, retryDelay = 2000, maxRetryDelay = 10000,
      enableExponentialBackoff = True\<rparr>"

text \<open>
  Every callback of the component is made by \<open>useCallback\<close> during a render and reads the
  state variables of that render, not the state at the time it runs. A \<open>render\<close> holds the
  values a callback captured; each callback below takes the render it was made in. The
  dependency lists make the callbacks that one callback reaches agree on these values:
  \<open>connectWebSocket\<close> and \<open>handleConnectionRetry\<close> are both remade exactly when
  \<open>connectionRetryCount\<close> changes, so they stem from the same render, and
  \<open>flushMessageQueue\<close>, \<open>sendMessage\<close> and \<open>retryFailedMessage\<close> as seen from that render
  hold its value of \<open>isConnected\<close>.
\<close>

record render =
  r_isConnected :: bool
  r_isConnecting :: bool
  r_isAutoConnecting :: bool
  r_connectionRetryCount :: nat
  r_inputValue :: jsstring

datatype ready_state = CONNECTING | OPEN | CLOSING | CLOSED

text \<open>
  A \<open>WebSocket\<close>: its state, the frames handed to it in order, and the render whose
  \<open>connectWebSocket\<close> created it and attached its four handlers.
\<close>

record websocket =
  readyState :: ready_state
  transmitted :: "jsstring list"
  handlers :: render

text \<open>
  A pending \<open>setTimeout\<close>: the reconnect timer of \<open>handleConnectionRetry\<close> (the attempt
  number and the render whose \<open>connectWebSocket\<close> it will call) or the send timer of
  \<open>retryFailedMessage\<close> (the id and the registry's message).
\<close>

datatype timer_action = Reconnect nat render | RetrySend jsstring message

record timer =
  timer_id :: nat
  delay :: int
  action :: timer_action

text \<open>The texts shown by \<open>antMessage\<close> and stored by \<open>setError\<close>, by their meaning.\<close>

datatype notice =
    MaxRetriesReached nat
  | ReconnectAttempt nat
  | ConnectedToServer
  | ConnectionLost
  | SendFailed
  | RetrySendFailed
  | ProcessingFailed

datatype error_text = ConnectionAbnormal | ConnectionClosed | ConnectionInitFailed

text \<open>
  The state of the mounted component: its \<open>useState\<close> variables, its refs, and what it
  has handed to the platform (sockets, timers, notices). \<open>wsRef\<close> is the position of its
  socket in \<open>sockets\<close>. \<open>connectRender\<close> is the render of the current \<open>connectWebSocket\<close>.
  \<open>randomCalls\<close> counts the calls of \<open>Math.random\<close>. \<open>renderError\<close> is an exception thrown
  by a state updater while React renders.
\<close>

record chat_state =
  messages :: "message list"
  inputValue :: jsstring
  isConnected :: bool
  isConnecting :: bool
  error :: "error_text option"
  showErrorMessage :: bool
  retryMessageId :: "jsstring option"
  connectionRetryCount :: nat
  isAutoConnecting :: bool
  retryTimeoutRef :: "nat option"
  wsRef :: "nat option"
  failedMessagesRef :: "(jsstring \<times> message) list"
  messageQueueRef :: "message list"
  connectRender :: render
  sockets :: "websocket list"
  timers :: "timer list"
  nextTimerId :: nat
  randomCalls :: nat
  notices :: "notice list"
  renderError :: "js_error option"

definition snapshot :: "chat_state \<Rightarrow> render" where
  "snapshot st =
     \<lparr>r_isConnected = isConnected st, r_isConnecting = isConnecting st,
      r_isAutoConnecting = isAutoConnecting st,
      r_connectionRetryCount = connectionRetryCount st, r_inputValue = inputValue st\<rparr>"

text \<open>The greeting: "Hello! I am your AI assistant ..." in Chinese.\<close>

definition greeting :: jsstring where
  "greeting =
     [24744, 22909, 65281, 25105, 26159, 24744, 30340, 65, 73, 21161, 25163, 65292, 21487,
      20197, 24110, 24744, 26597, 35810, 25968, 25454, 21644, 20998, 26512, 38382, 39064]"

definition initialState :: "jsstring \<Rightarrow> int \<Rightarrow> chat_state" where
  "initialState uuid now =
     \<lparr>messages =
        [\<lparr>msg_id = uuid, content = JStr greeting, role = Ai, timestamp = now,
          status = Sent, retryCount = None\<rparr>],
      inputValue = [], isConnected = False, isConnecting = False, error = None,
      showErrorMessage = False, retryMessageId = None, connectionRetryCount = 0,
      isAutoConnecting = False, retryTimeoutRef = None, wsRef = None,
      failedMessagesRef = [], messageQueueRef = [],
      connectRender =
        \<lparr>r_isConnected = False, r_isConnecting = False, r_isAutoConnecting = False,
         r_connectionRetryCount = 0, r_inputValue = []\<rparr>,
      sockets = [], timers = [], nextTimerId = 0, randomCalls = 0, notices = [],
      renderError = None\<rparr>"

section \<open>The platform's sockets and timers\<close>

text \<open>
  \<open>ws.send\<close> throws InvalidStateError while the socket is connecting, hands the frame to
  an open socket and drops it silently on a closing or closed one.
\<close>

definition ws_send :: "nat \<Rightarrow> jsstring \<Rightarrow> chat_state \<Rightarrow> js_error + chat_state" where
  "ws_send i data st =
     (if i < length (sockets st) then
        (case readyState (sockets st ! i) of
           CONNECTING \<Rightarrow> Inl InvalidStateError
         | OPEN \<Rightarrow>
             Inr (st\<lparr>sockets := (sockets st)
                    [i := (sockets st ! i)\<lparr>transmitted := transmitted (sockets st ! i) @ [data]\<rparr>]\<rparr>)
         | CLOSING \<Rightarrow> Inr st
         | CLOSED \<Rightarrow> Inr st)
      else Inr st)"

text \<open>\<open>wsRef.current?.send(data)\<close>: nothing happens on a null ref.\<close>

definition ref_send :: "jsstring \<Rightarrow> chat_state \<Rightarrow> js_error + chat_state" where
  "ref_send data st = (case wsRef st of None \<Rightarrow> Inr st | Some i \<Rightarrow> ws_send i data st)"

text \<open>\<open>ws.close()\<close> starts the closing handshake of a socket that is not closing or closed.\<close>

definition ws_close :: "nat \<Rightarrow> chat_state \<Rightarrow> chat_state" where
  "ws_close i st =
     (if i < length (sockets st)
         \<and> (readyState (sockets st ! i) = CONNECTING \<or> readyState (sockets st ! i) = OPEN)
      then st\<lparr>sockets := (sockets st)[i := (sockets st ! i)\<lparr>readyState := CLOSING\<rparr>]\<rparr>
      else st)"

definition setTimeout :: "timer_action \<Rightarrow> int \<Rightarrow> chat_state \<Rightarrow> chat_state" where
  "setTimeout a d st =
     st\<lparr>timers := timers st @ [\<lparr>timer_id = nextTimerId st, delay = d, action = a\<rparr>],
        nextTimerId := nextTimerId st + 1\<rparr>"

section \<open>The transport codec of \<open>ChatUi.tsx\<close>\<close>

text \<open>
  \<open>encryptMessage\<close> and \<open>decryptMessage\<close> close over the \<open>encryptionKey\<close> prop, which
  is their first argument \<open>key\<close> here. \<open>!encryptionKey\<close> holds exactly for the empty string.
  A thrown exception is the \<open>Inl\<close> branch.
\<close>

definition encryptMessage :: "jsstring \<Rightarrow> jsstring \<Rightarrow> js_error + jsstring" where
  "encryptMessage key message = (if key = [] then Inr message else btoa message)"

text \<open>
  The test \<open>/<[a-z][\s\S]*>/i\<close> of \<open>decryptMessage\<close>: a \<open><\<close>, then an ASCII letter, then
  a \<open>>\<close> anywhere later.
\<close>

definition is_ascii_letter :: "nat \<Rightarrow> bool" where
  "is_ascii_letter c = ((65 \<le> c \<and> c \<le> 90) \<or> (97 \<le> c \<and> c \<le> 122))"

fun has_html_tag :: "jsstring \<Rightarrow> bool" where
  "has_html_tag (a # b # rest) =
     ((a = 60 \<and> is_ascii_letter b \<and> List.member rest 62) \<or> has_html_tag (b # rest))"
| "has_html_tag [a] = False"
| "has_html_tag [] = False"

definition decryptMessage :: "jsstring \<Rightarrow> jsstring \<Rightarrow> js_error + jsstring" where
  "decryptMessage key encrypted =
     (if key = [] then Inr encrypted
      else (case atob encrypted of
              Inl e \<Rightarrow> Inl e
            | Inr decrypted \<Rightarrow>
                (if has_html_tag decrypted then Inr decrypted else Inr decrypted)))"

section \<open>Outbound queue and failed-message registry\<close>

text \<open>
  The expression \<open>encryptMessage(JSON.stringify({id, content, timestamp}))\<close> of
  \<open>sendMessage\<close> and \<open>retryFailedMessage\<close>.
\<close>

definition encryptedMessage :: "props \<Rightarrow> message \<Rightarrow> js_error + jsstring" where
  "encryptedMessage p m =
     (case toISOString (timestamp m) of
        Inl e \<Rightarrow> Inl e
      | Inr stamp \<Rightarrow>
          encryptMessage (encryptionKey p)
            (JSON_stringify_object
               [(ascii ''id'', JStr (msg_id m)), (ascii ''content'', content m),
                (ascii ''timestamp'', JStr stamp)]))"

definition set_status :: "jsstring \<Rightarrow> status \<Rightarrow> message list \<Rightarrow> message list" where
  "set_status i s ms = map (\<lambda>msg. if msg_id msg = i then msg\<lparr>status := s\<rparr> else msg) ms"

definition sendMessage :: "props \<Rightarrow> render \<Rightarrow> message \<Rightarrow> chat_state \<Rightarrow> chat_state" where
  "sendMessage p env m st =
     (if \<not> r_isConnected env then st\<lparr>messageQueueRef := messageQueueRef st @ [m]\<rparr>
      else
        (case encryptedMessage p m of
           Inl e \<Rightarrow>
             st\<lparr>messages := set_status (msg_id m) Failed (messages st),
                notices := notices st @ [SendFailed]\<rparr>
         | Inr data \<Rightarrow>
             (case ref_send data st of
                Inl e \<Rightarrow>
                  st\<lparr>messages := set_status (msg_id m) Failed (messages st),
                     notices := notices st @ [SendFailed]\<rparr>
              | Inr st' \<Rightarrow> st'\<lparr>messages := set_status (msg_id m) Sending (messages st')\<rparr>)))"

definition flushMessageQueue :: "props \<Rightarrow> render \<Rightarrow> chat_state \<Rightarrow> chat_state" where
  "flushMessageQueue p env st =
     (if 0 < length (messageQueueRef st) \<and> r_isConnected env then
        (fold (sendMessage p env) (messageQueueRef st) st)\<lparr>messageQueueRef := []\<rparr>
      else st)"

text \<open>
  \<open>handleSend\<close>; \<open>uuid\<close> is the result of \<open>uuidv4()\<close> and \<open>now\<close> that of \<open>new Date()\<close>.
  \<open>String.prototype.trim\<close> leaves the empty string exactly when every code unit is white
  space or a line terminator.
\<close>

definition is_js_space :: "nat \<Rightarrow> bool" where
  "is_js_space c =
     (c = 9 \<or> c = 10 \<or> c = 11 \<or> c = 12 \<or> c = 13 \<or> c = 32 \<or> c = 160 \<or> c = 5760
      \<or> (8192 \<le> c \<and> c \<le> 8202) \<or> c = 8232 \<or> c = 8233 \<or> c = 8239 \<or> c = 8287
      \<or> c = 12288 \<or> c = 65279)"

definition trim :: "jsstring \<Rightarrow> jsstring" where
  "trim s = rev (dropWhile is_js_space (rev (dropWhile is_js_space s)))"

definition handleSend :: "props \<Rightarrow> render \<Rightarrow> jsstring \<Rightarrow> int \<Rightarrow> chat_state \<Rightarrow> chat_state" where
  "handleSend p env uuid now st =
     (if trim (r_inputValue env) = [] \<or> \<not> r_isConnected env then st
      else
        (let userMsg =
               \<lparr>msg_id = uuid, content = JStr (r_inputValue env), role = User,
                timestamp = now, status = Sending, retryCount = None\<rparr>
         in sendMessage p env userMsg
              (st\<lparr>messages := messages st @ [userMsg], inputValue := []\<rparr>)))"

text \<open>
  \<open>retryFailedMessage\<close>. \<open>rng k\<close> is the value of \<open>Math.floor(Math.random() * 1000)\<close> at
  the \<open>k\<close>-th call of \<open>Math.random\<close>. The body of its timer is \<open>retry_timeout\<close>.
\<close>

definition retryFailedMessage ::
  "props \<Rightarrow> (nat \<Rightarrow> nat) \<Rightarrow> render \<Rightarrow> jsstring \<Rightarrow> chat_state \<Rightarrow> chat_state" where
  "retryFailedMessage p rng env messageId st =
     (let st1 = st\<lparr>retryMessageId := Some messageId\<rparr> in
      case map_of (failedMessagesRef st1) messageId of
        None \<Rightarrow> st1
      | Some messageToRetry \<Rightarrow>
          if r_isConnected env then
            setTimeout (RetrySend messageId messageToRetry)
              (int (rng (randomCalls st1)) + 500)
              (st1\<lparr>messages :=
                     map (\<lambda>msg. if msg_id msg = messageId
                                then msg\<lparr>status := Sending,
                                         retryCount :=
                                           Some ((case retryCount msg of None \<Rightarrow> 0 | Some c \<Rightarrow> c) + 1)\<rparr>
                                else msg)
                       (messages st1),
                   randomCalls := randomCalls st1 + 1\<rparr>)
          else st1)"

definition retry_timeout :: "props \<Rightarrow> jsstring \<Rightarrow> message \<Rightarrow> chat_state \<Rightarrow> chat_state" where
  "retry_timeout p messageId messageToRetry st =
     (case encryptedMessage p messageToRetry of
        Inl e \<Rightarrow> st\<lparr>notices := notices st @ [RetrySendFailed], retryMessageId := None\<rparr>
      | Inr data \<Rightarrow>
          (case ref_send data st of
             Inl e \<Rightarrow> st\<lparr>notices := notices st @ [RetrySendFailed], retryMessageId := None\<rparr>
           | Inr st' \<Rightarrow>
               st'\<lparr>failedMessagesRef :=
                      filter (\<lambda>kv. fst kv \<noteq> messageId) (failedMessagesRef st'),
                    retryMessageId := None\<rparr>))"

definition flushFailedMessages ::
  "props \<Rightarrow> (nat \<Rightarrow> nat) \<Rightarrow> render \<Rightarrow> chat_state \<Rightarrow> chat_state" where
  "flushFailedMessages p rng env st =
     fold (\<lambda>m. retryFailedMessage p rng env (msg_id m)) (map snd (failedMessagesRef st)) st"

text \<open>The \<open>onConfirm\<close> of the retry prompt shown beside a failed message \<open>msg\<close>.\<close>

definition Popconfirm_onConfirm ::
  "props \<Rightarrow> (nat \<Rightarrow> nat) \<Rightarrow> render \<Rightarrow> message \<Rightarrow> chat_state \<Rightarrow> chat_state" where
  "Popconfirm_onConfirm p rng env msg st = retryFailedMessage p rng env (msg_id msg) st"

section \<open>Connection management\<close>

text \<open>The delay computed by \<open>handleConnectionRetry\<close> for attempt \<open>nextRetry\<close>.\<close>

definition reconnect_delay :: "props \<Rightarrow> nat \<Rightarrow> int" where
  "reconnect_delay p nextRetry =
     (if enableExponentialBackoff p
      then min (retryDelay p * 2 ^ nextRetry) (maxRetryDelay p)
      else retryDelay p)"

definition handleConnectionRetry :: "props \<Rightarrow> render \<Rightarrow> chat_state \<Rightarrow> chat_state" where
  "handleConnectionRetry p env st =
     (if maxRetries p \<le> r_connectionRetryCount env then
        st\<lparr>notices := notices st @ [MaxRetriesReached (maxRetries p)]\<rparr>
      else
        (let nextRetry = r_connectionRetryCount env + 1 in
         setTimeout (Reconnect nextRetry env) (reconnect_delay p nextRetry)
           (st\<lparr>isAutoConnecting := True, connectionRetryCount := nextRetry,
               retryTimeoutRef := Some (nextTimerId st)\<rparr>)))"

text \<open>
  \<open>connectWebSocket\<close>; \<open>constructed\<close> tells whether \<open>new WebSocket(connectUrl)\<close> returned
  (otherwise the \<open>catch\<close> block runs). The new socket's handlers are those of \<open>env\<close>.
\<close>

definition connectWebSocket :: "props \<Rightarrow> render \<Rightarrow> bool \<Rightarrow> chat_state \<Rightarrow> chat_state" where
  "connectWebSocket p env constructed st =
     (if r_isConnecting env \<or> r_isConnected env \<or> r_isAutoConnecting env then st
      else
        (let st1 = st\<lparr>isConnecting := True, error := None, showErrorMessage := False\<rparr> in
         if constructed then
           st1\<lparr>sockets := sockets st1 @ [\<lparr>readyState = CONNECTING, transmitted = [], handlers = env\<rparr>],
               wsRef := Some (length (sockets st1))\<rparr>
         else
           handleConnectionRetry p env
             (st1\<lparr>error := Some ConnectionInitFailed, isConnecting := False\<rparr>)))"

definition ws_onopen :: "props \<Rightarrow> (nat \<Rightarrow> nat) \<Rightarrow> render \<Rightarrow> chat_state \<Rightarrow> chat_state" where
  "ws_onopen p rng env st =
     flushFailedMessages p rng env
       (flushMessageQueue p env
          (st\<lparr>isConnected := True, isConnecting := False, isAutoConnecting := False,
              connectionRetryCount := 0, notices := notices st @ [ConnectedToServer]\<rparr>))"

text \<open>
  \<open>ws.onmessage\<close> for a text frame \<open>data\<close>. The updater passed to \<open>setMessages\<close> reads
  \<open>parsedResponse.id\<close> when React applies it, outside the \<open>try\<close>: on \<open>null\<close> that read throws
  TypeError for the first message of the list.
\<close>

definition ws_onmessage :: "props \<Rightarrow> jsstring \<Rightarrow> chat_state \<Rightarrow> chat_state" where
  "ws_onmessage p data st =
     (case decryptMessage (encryptionKey p) data of
        Inl e \<Rightarrow> st\<lparr>notices := notices st @ [ProcessingFailed]\<rparr>
      | Inr decryptedResponse \<Rightarrow>
          (case JSON_parse decryptedResponse of
             Inl e \<Rightarrow> st\<lparr>notices := notices st @ [ProcessingFailed]\<rparr>
           | Inr parsedResponse \<Rightarrow>
               if parsedResponse = JNull \<and> messages st \<noteq> [] then
                 st\<lparr>renderError := Some TypeError\<rparr>
               else
                 st\<lparr>messages :=
                      map (\<lambda>msg. if JStr (msg_id msg) = get_prop parsedResponse (ascii ''id'')
                                 then msg\<lparr>content := get_prop parsedResponse (ascii ''content''),
                                          status := Sent\<rparr>
                                 else msg)
                        (messages st)\<rparr>))"

text \<open>\<open>ws.onerror\<close> of the socket at position \<open>i\<close>.\<close>

definition ws_onerror :: "props \<Rightarrow> render \<Rightarrow> nat \<Rightarrow> chat_state \<Rightarrow> chat_state" where
  "ws_onerror p env i st =
     handleConnectionRetry p env (ws_close i (st\<lparr>error := Some ConnectionAbnormal\<rparr>))"

definition ws_onclose :: "props \<Rightarrow> render \<Rightarrow> nat \<Rightarrow> chat_state \<Rightarrow> chat_state" where
  "ws_onclose p env code st =
     (let st1 = st\<lparr>isConnected := False, isConnecting := False\<rparr> in
      if code \<noteq> 1000 \<and> r_connectionRetryCount env < maxRetries p then
        handleConnectionRetry p env st1
      else
        st1\<lparr>notices := notices st1 @ [ConnectionLost], error := Some ConnectionClosed,
            showErrorMessage := True\<rparr>)"

section \<open>Events\<close>

text \<open>
  What the platform and React do to the mounted component. A socket opens, delivers a
  text frame, reports an error or closes with a code; a pending timer fires; React
  renders. A failing connection is closed before its \<open>error\<close> event and then its \<open>close\<close>
  event are fired.
\<close>

datatype event =
    Open nat
  | Message nat jsstring
  | Error nat
  | Close nat nat
  | Timeout nat
  | Render bool

definition set_readyState :: "nat \<Rightarrow> ready_state \<Rightarrow> chat_state \<Rightarrow> chat_state" where
  "set_readyState i r st = st\<lparr>sockets := (sockets st)[i := (sockets st ! i)\<lparr>readyState := r\<rparr>]\<rparr>"

definition run_timer :: "props \<Rightarrow> timer \<Rightarrow> chat_state \<Rightarrow> chat_state" where
  "run_timer p t st =
     (case action t of
        Reconnect nextRetry env \<Rightarrow>
          connectWebSocket p env True (st\<lparr>notices := notices st @ [ReconnectAttempt nextRetry]\<rparr>)
      | RetrySend messageId messageToRetry \<Rightarrow> retry_timeout p messageId messageToRetry st)"

text \<open>
  A render after which \<open>connectionRetryCount\<close> differs from the one \<open>connectWebSocket\<close> was
  made with makes a new \<open>connectWebSocket\<close>; the effect that depends on it then runs its
  cleanup (\<open>wsRef.current.close()\<close>) and calls the new \<open>connectWebSocket\<close>.
\<close>

definition rerender :: "props \<Rightarrow> bool \<Rightarrow> chat_state \<Rightarrow> chat_state" where
  "rerender p constructed st =
     (if connectionRetryCount st = r_connectionRetryCount (connectRender st) then st
      else
        connectWebSocket p (snapshot st) constructed
          ((case wsRef st of None \<Rightarrow> st | Some i \<Rightarrow> ws_close i st)
             \<lparr>connectRender := snapshot st\<rparr>))"

definition fire :: "props \<Rightarrow> (nat \<Rightarrow> nat) \<Rightarrow> event \<Rightarrow> chat_state \<Rightarrow> chat_state" where
  "fire p rng ev st =
     (case ev of
        Open i \<Rightarrow>
          if i < length (sockets st) \<and> readyState (sockets st ! i) = CONNECTING
          then ws_onopen p rng (handlers (sockets st ! i)) (set_readyState i OPEN st)
          else st
      | Message i data \<Rightarrow>
          if i < length (sockets st) then ws_onmessage p data st else st
      | Error i \<Rightarrow>
          if i < length (sockets st)
          then ws_onerror p (handlers (sockets st ! i)) i (set_readyState i CLOSED st)
          else st
      | Close i code \<Rightarrow>
          if i < length (sockets st)
          then ws_onclose p (handlers (sockets st ! i)) code (set_readyState i CLOSED st)
          else st
      | Timeout k \<Rightarrow>
          (case find (\<lambda>t. timer_id t = k) (timers st) of
             None \<Rightarrow> st
           | Some t \<Rightarrow> run_timer p t (st\<lparr>timers := remove1 t (timers st)\<rparr>))
      | Render constructed \<Rightarrow> rerender p constructed st)"

text \<open>Mounting: the first render, whose effect calls \<open>connectWebSocket\<close>.\<close>

definition mount :: "props \<Rightarrow> jsstring \<Rightarrow> int \<Rightarrow> chat_state" where
  "mount p uuid now =
     connectWebSocket p (snapshot (initialState uuid now)) True (initialState uuid now)"

text \<open>
  One failed connection attempt: the component's socket fails (\<open>error\<close>, then \<open>close\<close> with
  code 1006), React renders, the oldest pending timer fires, React renders.
\<close>

definition failed_attempt :: "props \<Rightarrow> (nat \<Rightarrow> nat) \<Rightarrow> chat_state \<Rightarrow> chat_state" where
  "failed_attempt p rng st =
     (case wsRef st of
        None \<Rightarrow> st
      | Some i \<Rightarrow>
          (let st1 = fire p rng (Render True)
                       (fire p rng (Close i 1006) (fire p rng (Error i) st))
           in case timers st1 of
                [] \<Rightarrow> st1
              | t # ts \<Rightarrow> fire p rng (Render True) (fire p rng (Timeout (timer_id t)) st1)))"

text \<open>The values captured by the callbacks of the first render.\<close>

definition firstRender :: render where
  "firstRender =
     \<lparr>r_isConnected = False, r_isConnecting = False, r_isAutoConnecting = False,
      r_connectionRetryCount = 0, r_inputValue = []\<rparr>"

section \<open>Observations and sample states\<close>

text \<open>What a message is created with, and what identifies it apart from its content.\<close>

definition created_part :: "message \<Rightarrow> jsstring \<times> jsval \<times> role \<times> int" where
  "created_part m = (msg_id m, content m, role m, timestamp m)"

definition identity_part :: "message \<Rightarrow> jsstring \<times> role \<times> int \<times> nat option" where
  "identity_part m = (msg_id m, role m, timestamp m, retryCount m)"

text \<open>\<open>msg.retryCount || 0\<close>.\<close>

definition retry_count :: "message \<Rightarrow> nat" where
  "retry_count m = (case retryCount m of None \<Rightarrow> 0 | Some c \<Rightarrow> c)"

text \<open>
  A run of the component with its default props: mounted, then its socket opened, then
  the user typing \<open>hi\<close> and sending it. \<open>noRandom\<close> is a random source that always
  yields 0.
\<close>

definition noRandom :: "nat \<Rightarrow> nat" where
  "noRandom k = 0"

definition mounted :: chat_state where
  "mounted = mount defaultProps (ascii ''g'') 0"

definition opened :: chat_state where
  "opened = fire defaultProps noRandom (Open 0) mounted"

definition typed :: "chat_state \<Rightarrow> chat_state" where
  "typed st = st\<lparr>inputValue := ascii ''hi''\<rparr>"

definition hello :: message where
  "hello =
     \<lparr>msg_id = ascii ''1'', content = JStr (ascii ''hi''), role = User, timestamp = 0,
      status = Sending, retryCount = None\<rparr>"

definition sentHello :: chat_state where
  "sentHello = handleSend defaultProps (snapshot (typed opened)) (ascii ''1'') 0 (typed opened)"

text \<open>A state whose registry holds a failed message.\<close>

definition lost :: message where
  "lost =
     \<lparr>msg_id = ascii ''7'', content = JStr (ascii ''lost''), role = User, timestamp = 0,
      status = Failed, retryCount = None\<rparr>"

definition withFailed :: chat_state where
  "withFailed =
     opened\<lparr>messages := messages opened @ [lost], failedMessagesRef := [(ascii ''7'', lost)]\<rparr>"

text \<open>The frame \<open>sentHello\<close> hands to the socket, and a reply of the server to it.\<close>

definition helloWire :: jsstring where
  \<open>helloWire = ascii ''{"id":"1","content":"hi","timestamp":"1970-01-01T00:00:00.000Z"}''\<close>

definition changedFrame :: jsstring where
  \<open>changedFrame = ascii ''{"id":"1","content":"changed"}''\<close>

text \<open>Props with an encryption key, and a message whose content is "ni hao" in Chinese.\<close>

definition keyedProps :: props where
  "keyedProps = defaultProps\<lparr>encryptionKey := ascii ''secret''\<rparr>"

definition nihao :: message where
  "nihao =
     \<lparr>msg_id = ascii ''2'', content = JStr [20320, 22909], role = User, timestamp = 0,
      status = Sending, retryCount = None\<rparr>"

text \<open>
  The state after \<open>n + 1\<close> failed connection attempts of the default component, as far
  as the reconnect path reads it.
\<close>

definition retrying :: "nat \<Rightarrow> chat_state \<Rightarrow> bool" where
  "retrying n st =
     (connectionRetryCount st = 1
      \<and> r_connectionRetryCount (connectRender st) = 1
      \<and> wsRef st = Some (Suc n)
      \<and> length (sockets st) = Suc (Suc n)
      \<and> handlers (sockets st ! Suc n) = firstRender
      \<and> readyState (sockets st ! Suc n) = CONNECTING
      \<and> length (timers st) = Suc n
      \<and> list_all (\<lambda>t. action t = Reconnect 1 firstRender) (timers st)
      \<and> \<not> showErrorMessage st
      \<and> list_all (\<lambda>x. x = ReconnectAttempt 1) (notices st))"

text \<open>
  The states the mounted component can be in: it is mounted; then the platform and React
  fire events, the user types, submits, confirms a retry prompt or presses the reconnect
  button. The callbacks of the user interface may stem from any render.
\<close>

inductive reachable :: "props \<Rightarrow> chat_state \<Rightarrow> bool" for p :: props where
  at_mount: "reachable p (mount p uuid now)"
| after_event: "reachable p st \<Longrightarrow> reachable p (fire p rng ev st)"
| after_typing: "reachable p st \<Longrightarrow> reachable p (st\<lparr>inputValue := v\<rparr>)"
| after_submit: "reachable p st \<Longrightarrow> reachable p (handleSend p env uuid now st)"
| after_retry_prompt: "reachable p st \<Longrightarrow> reachable p (Popconfirm_onConfirm p rng env msg st)"
| after_reconnect_button: "reachable p st \<Longrightarrow> reachable p (connectWebSocket p env constructed st)"

text \<open>
  With an encryption key: the user types "ni hao" on the open connection and submits it as
  message \<open>2\<close>; the send throws.
\<close>

definition failedSend :: chat_state where
  "failedSend =
     handleSend keyedProps (snapshot (opened\<lparr>inputValue := [20320, 22909]\<rparr>)) (ascii ''2'') 0
       (opened\<lparr>inputValue := [20320, 22909]\<rparr>)"

text \<open>The message \<open>handleSend\<close> composes from the input of its render.\<close>

definition userMsg :: "jsstring \<Rightarrow> render \<Rightarrow> int \<Rightarrow> message" where
  "userMsg uuid env now =
     \<lparr>msg_id = uuid, content = JStr (r_inputValue env), role = User, timestamp = now,
      status = Sending, retryCount = None\<rparr>"

text \<open>
  For the proofs: the sextets of a byte string and the padding of its encoding, so that
  \<open>base64_encode s = map b64_char (sextets s) @ padding s\<close>.
\<close>

fun sextets :: "nat list \<Rightarrow> nat list" where
  "sextets (a # b # c # rest) =
     [a div 4, (a mod 4) * 16 + b div 16, (b mod 16) * 4 + c div 64, c mod 64] @ sextets rest"
| "sextets [a, b] = [a div 4, (a mod 4) * 16 + b div 16, (b mod 16) * 4]"
| "sextets [a] = [a div 4, (a mod 4) * 16]"
| "sextets [] = []"

definition padding :: "nat list \<Rightarrow> nat list" where
  "padding s = replicate ((3 - length s mod 3) mod 3) 61"

section \<open>Properties of the codec\<close>

text \<open>
  C10. The value of a non-empty encryption key does not influence the wire text: under
  any two non-empty keys \<open>encryptMessage\<close> gives the same result (the same text or the
  same exception) for every plaintext, and \<open>decryptMessage\<close> the same result for every
  received text. Only whether the key is empty can be observed.
\<close>

theorem key_value_not_observable:
  assumes "k1 \<noteq> []" and "k2 \<noteq> []"
  shows "encryptMessage k1 p = encryptMessage k2 p
       \<and> decryptMessage k1 c = decryptMessage k2 c"
  using assms by (simp add: encryptMessage_def decryptMessage_def)

theorem key_value_not_observable_witness:
  "ascii ''k1'' \<noteq> [] \<and> ascii ''another key'' \<noteq> []
   \<and> encryptMessage (ascii ''k1'') (ascii ''hi'') = Inr (ascii ''aGk='')
   \<and> encryptMessage (ascii ''another key'') (ascii ''hi'') = Inr (ascii ''aGk='')
   \<and> decryptMessage (ascii ''k1'') (ascii ''aGk='') = Inr (ascii ''hi'')
   \<and> decryptMessage (ascii ''another key'') (ascii ''aGk='') = Inr (ascii ''hi'')"
proof -
  have n1: "ascii ''k1'' \<noteq> []" by (simp add: ascii_def)
  have n2: "ascii ''another key'' \<noteq> []" by (simp add: ascii_def)
  have e: "encryptMessage (ascii ''k1'') (ascii ''hi'') = Inr (ascii ''aGk='')"
    by code_simp
  have d: "decryptMessage (ascii ''k1'') (ascii ''aGk='') = Inr (ascii ''hi'')"
    by code_simp
  from key_value_not_observable [OF n1 n2, of "ascii ''hi''" "ascii ''aGk=''"] n1 n2 e d
  show ?thesis by simp
qed

section \<open>Properties of the reconnect path\<close>

lemma reconnect_delay_mono:
  assumes "0 \<le> retryDelay p" and "n \<le> m"
  shows "reconnect_delay p n \<le> reconnect_delay p m"
proof -
  have "(2::int) ^ n \<le> 2 ^ m" using assms(2) by (simp add: power_increasing)
  then have "retryDelay p * 2 ^ n \<le> retryDelay p * 2 ^ m"
    using assms(1) by (rule mult_left_mono)
  then show ?thesis by (simp add: reconnect_delay_def min_def)
qed

lemma mount_timers: "timers (mount p uuid now) = [] \<and> nextTimerId (mount p uuid now) = 0"
  by (simp add: mount_def connectWebSocket_def initialState_def snapshot_def Let_def)

text \<open>
  C4. When \<open>handleConnectionRetry\<close> schedules attempt \<open>n \<ge> 1\<close> (it was made in a render
  with \<open>connectionRetryCount = n - 1\<close>, below \<open>maxRetries\<close>), the timer it sets has the delay
  \<open>min (retryDelay * 2 ^ n) maxRetryDelay\<close> when exponential backoff is enabled and
  \<open>retryDelay\<close> otherwise. For a delay \<open>retryDelay \<ge> 0\<close> this is non-decreasing in \<open>n\<close>.
  Delays are whole milliseconds.
\<close>

theorem reconnect_delay_backoff:
  assumes "1 \<le> n" and "r_connectionRetryCount env = n - 1" and "n \<le> maxRetries p"
  shows "timers (handleConnectionRetry p env st) =
           timers st @ [\<lparr>timer_id = nextTimerId st, delay = reconnect_delay p n,
                         action = Reconnect n env\<rparr>]
       \<and> (enableExponentialBackoff p \<longrightarrow>
            reconnect_delay p n = min (retryDelay p * 2 ^ n) (maxRetryDelay p))
       \<and> (\<not> enableExponentialBackoff p \<longrightarrow> reconnect_delay p n = retryDelay p)
       \<and> (0 \<le> retryDelay p \<and> n \<le> m \<longrightarrow> reconnect_delay p n \<le> reconnect_delay p m)"
proof -
  have "\<not> maxRetries p \<le> r_connectionRetryCount env" using assms by simp
  moreover have "r_connectionRetryCount env + 1 = n" using assms by simp
  ultimately have "timers (handleConnectionRetry p env st) =
           timers st @ [\<lparr>timer_id = nextTimerId st, delay = reconnect_delay p n,
                         action = Reconnect n env\<rparr>]"
    by (simp add: handleConnectionRetry_def setTimeout_def Let_def)
  moreover have "enableExponentialBackoff p \<longrightarrow>
            reconnect_delay p n = min (retryDelay p * 2 ^ n) (maxRetryDelay p)"
    by (simp add: reconnect_delay_def)
  moreover have "\<not> enableExponentialBackoff p \<longrightarrow> reconnect_delay p n = retryDelay p"
    by (simp add: reconnect_delay_def)
  moreover have "0 \<le> retryDelay p \<and> n \<le> m \<longrightarrow> reconnect_delay p n \<le> reconnect_delay p m"
    using reconnect_delay_mono by blast
  ultimately show ?thesis by blast
qed

theorem reconnect_delay_backoff_witness:
  "timers (handleConnectionRetry defaultProps firstRender (mount defaultProps (ascii ''g'') 0)) =
     [\<lparr>timer_id = 0, delay = 4000, action = Reconnect 1 firstRender\<rparr>]
   \<and> reconnect_delay defaultProps 1 = 4000
   \<and> reconnect_delay defaultProps 2 = 8000
   \<and> reconnect_delay defaultProps 3 = 10000
   \<and> reconnect_delay (defaultProps\<lparr>enableExponentialBackoff := False\<rparr>) 1 = 2000"
proof -
  have a: "(1::nat) \<le> 1" by simp
  have b: "r_connectionRetryCount firstRender = 1 - 1" by (simp add: firstRender_def)
  have c: "1 \<le> maxRetries defaultProps" by (simp add: defaultProps_def)
  have d: "reconnect_delay defaultProps 1 = 4000" "reconnect_delay defaultProps 2 = 8000"
     "reconnect_delay defaultProps 3 = 10000"
     "reconnect_delay (defaultProps\<lparr>enableExponentialBackoff := False\<rparr>) 1 = 2000"
    by (simp_all add: reconnect_delay_def defaultProps_def)
  from reconnect_delay_backoff [OF a b c, of "mount defaultProps (ascii ''g'') 0" 2]
    mount_timers [of defaultProps "ascii ''g''" 0] d
  show ?thesis by simp
qed

text \<open>
  C6. The \<open>close\<close> handler with code 1000 schedules no reconnect: it sets no timer, makes no
  socket and shows the "connection closed" error. With any other code, and the render's
  \<open>connectionRetryCount\<close> below \<open>maxRetries\<close>, it takes the reconnect path: it sets the
  reconnect timer for the next attempt and turns \<open>isAutoConnecting\<close> on.
\<close>

theorem close_code_decides_reconnect:
  "timers (ws_onclose p env 1000 st) = timers st
   \<and> sockets (ws_onclose p env 1000 st) = sockets st
   \<and> isAutoConnecting (ws_onclose p env 1000 st) = isAutoConnecting st
   \<and> error (ws_onclose p env 1000 st) = Some ConnectionClosed
   \<and> (code \<noteq> 1000 \<and> r_connectionRetryCount env < maxRetries p \<longrightarrow>
        timers (ws_onclose p env code st) =
          timers st @ [\<lparr>timer_id = nextTimerId st,
                        delay = reconnect_delay p (r_connectionRetryCount env + 1),
                        action = Reconnect (r_connectionRetryCount env + 1) env\<rparr>]
        \<and> isAutoConnecting (ws_onclose p env code st))"
  by (simp add: ws_onclose_def handleConnectionRetry_def setTimeout_def Let_def)

theorem close_code_decides_reconnect_witness:
  "(1006::nat) \<noteq> 1000 \<and> r_connectionRetryCount firstRender < maxRetries defaultProps
   \<and> timers (ws_onclose defaultProps firstRender 1000 (mount defaultProps (ascii ''g'') 0)) = []
   \<and> timers (ws_onclose defaultProps firstRender 1006 (mount defaultProps (ascii ''g'') 0)) =
       [\<lparr>timer_id = 0, delay = 4000, action = Reconnect 1 firstRender\<rparr>]
   \<and> isAutoConnecting (ws_onclose defaultProps firstRender 1006 (mount defaultProps (ascii ''g'') 0))"
proof -
  have a: "(1006::nat) \<noteq> 1000" by simp
  have b: "r_connectionRetryCount firstRender < maxRetries defaultProps"
    by (simp add: firstRender_def defaultProps_def)
  have c: "r_connectionRetryCount firstRender + 1 = 1" by (simp add: firstRender_def)
  have d: "reconnect_delay defaultProps 1 = 4000"
    by (simp add: reconnect_delay_def defaultProps_def)
  from close_code_decides_reconnect
         [of defaultProps firstRender "mount defaultProps (ascii ''g'') 0" 1006]
    a b c d mount_timers [of defaultProps "ascii ''g''" 0]
  show ?thesis by simp
qed

section \<open>Properties of the queue and the registry\<close>

lemma ref_send_fields:
  "ref_send data st = Inr st' \<Longrightarrow>
     messages st' = messages st \<and> messageQueueRef st' = messageQueueRef st
     \<and> inputValue st' = inputValue st \<and> failedMessagesRef st' = failedMessagesRef st
     \<and> timers st' = timers st \<and> wsRef st' = wsRef st \<and> length (sockets st') = length (sockets st)"
  by (auto simp: ref_send_def ws_send_def split: option.splits if_splits ready_state.splits)

lemma sendMessage_disconnected:
  "\<not> r_isConnected env \<Longrightarrow>
     sendMessage p env m st = st\<lparr>messageQueueRef := messageQueueRef st @ [m]\<rparr>"
  by (simp add: sendMessage_def)

lemma sendMessage_connected:
  assumes "r_isConnected env"
  shows "\<exists>s. (s = Sending \<or> s = Failed)
           \<and> messages (sendMessage p env m st) = set_status (msg_id m) s (messages st)
           \<and> messageQueueRef (sendMessage p env m st) = messageQueueRef st
           \<and> inputValue (sendMessage p env m st) = inputValue st"
proof (cases "encryptedMessage p m")
  case (Inl e)
  then show ?thesis using assms by (auto simp: sendMessage_def)
next
  case (Inr data)
  show ?thesis
  proof (cases "ref_send data st")
    case (Inl e)
    then show ?thesis using assms Inr by (auto simp: sendMessage_def)
  next
    case (Inr st')
    from ref_send_fields [OF this] show ?thesis
      using assms \<open>encryptedMessage p m = Inr data\<close> Inr by (auto simp: sendMessage_def)
  qed
qed

lemma retryFailedMessage_sockets: "sockets (retryFailedMessage p rng env mid st) = sockets st"
  by (simp add: retryFailedMessage_def setTimeout_def Let_def split: option.splits)

lemma retryFailedMessage_timer:
  assumes "map_of (failedMessagesRef st) mid = Some m" and "r_isConnected env"
  shows "timers (retryFailedMessage p rng env mid st) =
           timers st @ [\<lparr>timer_id = nextTimerId st, delay = int (rng (randomCalls st)) + 500,
                         action = RetrySend mid m\<rparr>]"
  using assms by (simp add: retryFailedMessage_def setTimeout_def Let_def)

lemma retryFailedMessage_messages:
  assumes "map_of (failedMessagesRef st) mid = Some m" and "r_isConnected env"
  shows "messages (retryFailedMessage p rng env mid st) =
           map (\<lambda>msg. if msg_id msg = mid
                       then msg\<lparr>status := Sending, retryCount := Some (retry_count msg + 1)\<rparr>
                       else msg) (messages st)
         \<and> failedMessagesRef (retryFailedMessage p rng env mid st) = failedMessagesRef st"
  using assms by (simp add: retryFailedMessage_def setTimeout_def Let_def retry_count_def)

lemma map_of_filter_key: "map_of (filter (\<lambda>kv. fst kv \<noteq> k) xs) k = None"
  by (induction xs) auto

lemma retry_timeout_success:
  assumes "encryptedMessage p m = Inr data" and "ref_send data st = Inr st'"
  shows "map_of (failedMessagesRef (retry_timeout p mid m st)) mid = None
       \<and> messages (retry_timeout p mid m st) = messages st"
  using assms ref_send_fields [OF assms(2)]
  by (simp add: retry_timeout_def map_of_filter_key)

section \<open>What the handlers keep of a message\<close>

lemma kept_set_status: "map created_part (set_status i s ms) = map created_part ms"
  by (induction ms) (simp_all add: set_status_def created_part_def)

lemma kept_sendMessage:
  "map created_part (messages (sendMessage p env m st)) = map created_part (messages st)"
proof (cases "r_isConnected env")
  case False
  then show ?thesis by (simp add: sendMessage_def)
next
  case True
  show ?thesis
  proof (cases "encryptedMessage p m")
    case (Inl e)
    then show ?thesis using True by (simp add: sendMessage_def kept_set_status)
  next
    case (Inr data)
    then show ?thesis using True ref_send_fields [of data st]
      by (cases "ref_send data st") (simp_all add: sendMessage_def kept_set_status)
  qed
qed

lemma kept_fold_sendMessage:
  "map created_part (messages (fold (sendMessage p env) ms st)) = map created_part (messages st)"
  by (induction ms arbitrary: st) (simp_all add: kept_sendMessage)

lemma kept_flushMessageQueue:
  "map created_part (messages (flushMessageQueue p env st)) = map created_part (messages st)"
  by (simp add: flushMessageQueue_def kept_fold_sendMessage)

lemma kept_retryFailedMessage:
  "map created_part (messages (retryFailedMessage p rng env mid st)) =
     map created_part (messages st)"
  by (simp add: retryFailedMessage_def setTimeout_def Let_def created_part_def comp_def
      split: option.splits)

lemma kept_fold_retry:
  "map created_part (messages (fold (\<lambda>m. retryFailedMessage p rng env (msg_id m)) ms st)) =
     map created_part (messages st)"
  by (induction ms arbitrary: st) (simp_all add: kept_retryFailedMessage)

lemma kept_flushFailedMessages:
  "map created_part (messages (flushFailedMessages p rng env st)) =
     map created_part (messages st)"
  by (simp add: flushFailedMessages_def kept_fold_retry)

lemma kept_retry_timeout:
  "map created_part (messages (retry_timeout p mid m st)) = map created_part (messages st)"
proof (cases "encryptedMessage p m")
  case (Inl e)
  then show ?thesis by (simp add: retry_timeout_def)
next
  case (Inr data)
  then show ?thesis using ref_send_fields [of data st]
    by (cases "ref_send data st") (simp_all add: retry_timeout_def)
qed

lemma messages_handleConnectionRetry: "messages (handleConnectionRetry p env st) = messages st"
  by (simp add: handleConnectionRetry_def setTimeout_def Let_def)

lemma messages_ws_close: "messages (ws_close i st) = messages st"
  by (simp add: ws_close_def)

lemma messages_connectWebSocket: "messages (connectWebSocket p env c st) = messages st"
  by (simp add: connectWebSocket_def Let_def messages_handleConnectionRetry)

lemma kept_ws_onopen:
  "map created_part (messages (ws_onopen p rng env st)) = map created_part (messages st)"
  by (simp add: ws_onopen_def kept_flushFailedMessages kept_flushMessageQueue)

lemma messages_ws_onerror: "messages (ws_onerror p env i st) = messages st"
  by (simp add: ws_onerror_def messages_handleConnectionRetry messages_ws_close)

lemma messages_ws_onclose: "messages (ws_onclose p env code st) = messages st"
  by (simp add: ws_onclose_def Let_def messages_handleConnectionRetry)

lemma kept_run_timer:
  "map created_part (messages (run_timer p t st)) = map created_part (messages st)"
  by (cases "action t") (simp_all add: run_timer_def messages_connectWebSocket kept_retry_timeout)

lemma messages_rerender: "messages (rerender p c st) = messages st"
  by (simp add: rerender_def messages_connectWebSocket messages_ws_close split: option.splits)

lemma kept_fire:
  assumes "\<And>i data. ev \<noteq> Message i data"
  shows "map created_part (messages (fire p rng ev st)) = map created_part (messages st)"
proof (cases ev)
  case (Open i)
  then show ?thesis by (simp add: fire_def kept_ws_onopen set_readyState_def)
next
  case (Message i data)
  with assms show ?thesis by blast
next
  case (Error i)
  then show ?thesis by (simp add: fire_def messages_ws_onerror set_readyState_def)
next
  case (Close i code)
  then show ?thesis by (simp add: fire_def messages_ws_onclose set_readyState_def)
next
  case (Timeout k)
  then show ?thesis by (simp add: fire_def kept_run_timer split: option.splits)
next
  case (Render c)
  then show ?thesis by (simp add: fire_def messages_rerender)
qed

lemma kept_handleSend:
  "take (length (messages st)) (map created_part (messages (handleSend p env uuid now st))) =
     map created_part (messages st)"
  by (simp add: handleSend_def Let_def kept_sendMessage)

lemma onmessage_identity:
  "map identity_part (messages (ws_onmessage p data st)) = map identity_part (messages st)"
  by (simp add: ws_onmessage_def identity_part_def comp_def split: sum.splits)

lemma onmessage_content:
  assumes "i < length (messages st)"
  shows "content (messages (ws_onmessage p data st) ! i) = content (messages st ! i)
       \<or> (\<exists>decrypted parsed.
             decryptMessage (encryptionKey p) data = Inr decrypted
           \<and> JSON_parse decrypted = Inr parsed
           \<and> get_prop parsed (ascii ''id'') = JStr (msg_id (messages st ! i))
           \<and> content (messages (ws_onmessage p data st) ! i) = get_prop parsed (ascii ''content''))"
  using assms by (auto simp: ws_onmessage_def split: sum.splits)

section \<open>The sample states, computed\<close>

lemma mounted_eq:
  "mounted =
     \<lparr>messages =
        [\<lparr>msg_id = ascii ''g'', content = JStr greeting, role = Ai, timestamp = 0,
          status = Sent, retryCount = None\<rparr>],
      inputValue = [], isConnected = False, isConnecting = True, error = None,
      showErrorMessage = False, retryMessageId = None, connectionRetryCount = 0,
      isAutoConnecting = False, retryTimeoutRef = None, wsRef = Some 0,
      failedMessagesRef = [], messageQueueRef = [], connectRender = firstRender,
      sockets = [\<lparr>readyState = CONNECTING, transmitted = [], handlers = firstRender\<rparr>],
      timers = [], nextTimerId = 0, randomCalls = 0, notices = [], renderError = None\<rparr>"
  by (simp add: mounted_def mount_def connectWebSocket_def initialState_def snapshot_def
      firstRender_def Let_def)

lemma opened_eq:
  "opened =
     \<lparr>messages =
        [\<lparr>msg_id = ascii ''g'', content = JStr greeting, role = Ai, timestamp = 0,
          status = Sent, retryCount = None\<rparr>],
      inputValue = [], isConnected = True, isConnecting = False, error = None,
      showErrorMessage = False, retryMessageId = None, connectionRetryCount = 0,
      isAutoConnecting = False, retryTimeoutRef = None, wsRef = Some 0,
      failedMessagesRef = [], messageQueueRef = [], connectRender = firstRender,
      sockets = [\<lparr>readyState = OPEN, transmitted = [], handlers = firstRender\<rparr>],
      timers = [], nextTimerId = 0, randomCalls = 0, notices = [ConnectedToServer],
      renderError = None\<rparr>"
  by (simp add: opened_def mounted_eq fire_def set_readyState_def ws_onopen_def
      flushMessageQueue_def flushFailedMessages_def firstRender_def)

lemma trim_hi: "trim (ascii ''hi'') = ascii ''hi''"
  by (simp add: trim_def ascii_def is_js_space_def)

section \<open>Evaluating the sample run\<close>

lemma digits_2: "digits 2 n = [48 + n div 10 mod 10, 48 + n mod 10]"
  by (simp add: numeral_2_eq_2)

lemma digits_3: "digits 3 n = [48 + n div 10 div 10 mod 10, 48 + n div 10 mod 10, 48 + n mod 10]"
  by (simp add: numeral_3_eq_3)

lemma digits_4:
  "digits 4 n = [48 + n div 10 div 10 div 10 mod 10, 48 + n div 10 div 10 mod 10,
                 48 + n div 10 mod 10, 48 + n mod 10]"
proof -
  have "digits (Suc (Suc (Suc (Suc 0)))) n =
          [48 + n div 10 div 10 div 10 mod 10, 48 + n div 10 div 10 mod 10,
           48 + n div 10 mod 10, 48 + n mod 10]" by simp
  moreover have "(4::nat) = Suc (Suc (Suc (Suc 0)))" by simp
  ultimately show ?thesis by (simp only:)
qed

lemma civil_epoch: "civil_from_days 0 = (1970, 1, 1)"
  by code_simp


lemma epoch_text: "toISOString 0 = Inr (ascii ''1970-01-01T00:00:00.000Z'')"
  by (simp add: toISOString_def civil_epoch year_text_def ascii_def digits_2 digits_3 digits_4)

lemma enc_hello: "encryptedMessage defaultProps hello = Inr helloWire"
  by (simp add: encryptedMessage_def hello_def epoch_text defaultProps_def encryptMessage_def
      JSON_stringify_object_def QuoteJSONString_def escape_unit_def
      is_high_surrogate_def is_low_surrogate_def ascii_def helloWire_def)

lemma sentHello_eq:
  "sentHello =
     \<lparr>messages =
        [\<lparr>msg_id = ascii ''g'', content = JStr greeting, role = Ai, timestamp = 0,
          status = Sent, retryCount = None\<rparr>, hello],
      inputValue = [], isConnected = True, isConnecting = False, error = None,
      showErrorMessage = False, retryMessageId = None, connectionRetryCount = 0,
      isAutoConnecting = False, retryTimeoutRef = None, wsRef = Some 0,
      failedMessagesRef = [], messageQueueRef = [], connectRender = firstRender,
      sockets = [\<lparr>readyState = OPEN, transmitted = [helloWire], handlers = firstRender\<rparr>],
      timers = [], nextTimerId = 0, randomCalls = 0, notices = [ConnectedToServer],
      renderError = None\<rparr>"
proof -
  have h: "\<lparr>msg_id = ascii ''1'', content = JStr (ascii ''hi''), role = User, timestamp = 0,
      status = Sending, retryCount = None\<rparr> = hello" by (simp add: hello_def)
  have i: "msg_id hello = ascii ''1''" by (simp add: hello_def)
  have s: "hello\<lparr>status := Sending\<rparr> = hello" by (simp add: hello_def)
  have n: "ascii ''g'' \<noteq> ascii ''1''" by (simp add: ascii_def)
  have t: "trim (ascii ''hi'') \<noteq> []" by (simp add: trim_hi) (simp add: ascii_def)
  show ?thesis
    using t n
    by (simp add: sentHello_def typed_def opened_eq snapshot_def handleSend_def h Let_def
        sendMessage_def enc_hello ref_send_def ws_send_def set_status_def i s)
qed

lemma parse_changed:
  "JSON_parse changedFrame =
     Inr (JObj [(ascii ''id'', JStr (ascii ''1'')), (ascii ''content'', JStr (ascii ''changed''))])"
  by code_simp

text \<open>
  C7, as stated, fails: after the user sent \<open>hi\<close> as message \<open>1\<close>, a frame of the server
  with that id and another content replaces the content of the message.
\<close>

theorem received_frame_rewrites_content:
  "map content (messages sentHello) = [JStr greeting, JStr (ascii ''hi'')]
   \<and> map content (messages (fire defaultProps noRandom (Message 0 changedFrame) sentHello)) =
        [JStr greeting, JStr (ascii ''changed'')]"
proof -
  have n: "ascii ''g'' \<noteq> ascii ''1''" by (simp add: ascii_def)
  have k: "encryptionKey defaultProps = []" by (simp add: defaultProps_def)
  have g1: "get_prop (JObj [(ascii ''id'', JStr (ascii ''1'')), (ascii ''content'', JStr (ascii ''changed''))]) (ascii ''id'') = JStr (ascii ''1'')"
    by (simp add: get_prop_def ascii_def)
  have g2: "get_prop (JObj [(ascii ''id'', JStr (ascii ''1'')), (ascii ''content'', JStr (ascii ''changed''))]) (ascii ''content'') = JStr (ascii ''changed'')"
    by (simp add: get_prop_def ascii_def)
  show ?thesis
    using n
    by (simp add: sentHello_eq fire_def ws_onmessage_def decryptMessage_def k parse_changed
        g1 g2 hello_def)
qed

section \<open>Submitting and receiving\<close>

lemma msg_id_set_status: "map msg_id (set_status i s ms) = map msg_id ms"
  by (induction ms) (simp_all add: set_status_def)

text \<open>
  C2, as stated, fails: while the socket is still connecting, submitting \<open>hi\<close> leaves the
  state unchanged; no message is created and the queue stays empty.
\<close>

theorem submit_while_disconnected_is_dropped:
  "\<not> isConnected (typed mounted)
   \<and> trim (inputValue (typed mounted)) = ascii ''hi''
   \<and> messages (typed mounted) = messages mounted
   \<and> messageQueueRef (typed mounted) = []
   \<and> handleSend defaultProps (snapshot (typed mounted)) (ascii ''1'') 0 (typed mounted) = typed mounted"
  by (simp add: typed_def mounted_eq snapshot_def handleSend_def trim_hi)

section \<open>Retrying a failed message\<close>

lemma encryptedMessage_plain:
  assumes "encryptionKey p = []" and "toISOString (timestamp m) = Inr stamp"
  shows "encryptedMessage p m =
           Inr (JSON_stringify_object
                  [(ascii ''id'', JStr (msg_id m)), (ascii ''content'', content m),
                   (ascii ''timestamp'', JStr stamp)])"
  using assms by (simp add: encryptedMessage_def encryptMessage_def)

lemma withFailed_fields:
  "map_of (failedMessagesRef withFailed) (ascii ''7'') = Some lost"
  "r_isConnected (snapshot withFailed)"
  "timers withFailed = []"
  "nextTimerId withFailed = 0"
  "randomCalls withFailed = 0"
  "wsRef withFailed = Some 0"
  "sockets withFailed = [\<lparr>readyState = OPEN, transmitted = [], handlers = firstRender\<rparr>]"
  "messages withFailed =
     [\<lparr>msg_id = ascii ''g'', content = JStr greeting, role = Ai, timestamp = 0,
       status = Sent, retryCount = None\<rparr>, lost]"
  by (simp_all add: withFailed_def opened_eq snapshot_def)

text \<open>
  When \<open>retryFailedMessage\<close> finds the message in the registry and its render is
  connected, it hands nothing to a socket itself: it sets a timer of 500 ms plus the
  random draw, and the send happens in that timer.
\<close>

lemma retry_sets_timer:
  assumes "map_of (failedMessagesRef st) mid = Some m" and "r_isConnected env"
    and "rng (randomCalls st) < 1000"
  shows "sockets (retryFailedMessage p rng env mid st) = sockets st
       \<and> (\<exists>d. 500 \<le> d \<and> d < 1500
              \<and> timers (retryFailedMessage p rng env mid st) =
                  timers st @ [\<lparr>timer_id = nextTimerId st, delay = d, action = RetrySend mid m\<rparr>])"
  using assms by (auto simp: retryFailedMessage_sockets retryFailedMessage_timer)

text \<open>
  C8. For a message in the registry, retried from a connected render: when the retry's
  timer runs and its send does not throw, the message is no longer in the registry, and
  in the message list the \<open>retryCount\<close> of the messages with that id has grown by exactly
  one (an absent count is 0) while all other messages are unchanged.
\<close>

theorem successful_retry_counts_once:
  assumes reg: "map_of (failedMessagesRef st) mid = Some m"
    and conn: "r_isConnected env"
    and enc: "encryptedMessage p m = Inr data"
    and snd: "ref_send data (retryFailedMessage p rng env mid st) = Inr st'"
  shows "\<exists>t. timers (retryFailedMessage p rng env mid st) = timers st @ [t]
           \<and> action t = RetrySend mid m
           \<and> map_of (failedMessagesRef (run_timer p t (retryFailedMessage p rng env mid st))) mid = None
           \<and> length (messages (run_timer p t (retryFailedMessage p rng env mid st))) = length (messages st)
           \<and> (\<forall>i < length (messages st).
                 if msg_id (messages st ! i) = mid
                 then retry_count (messages (run_timer p t (retryFailedMessage p rng env mid st)) ! i)
                        = retry_count (messages st ! i) + 1
                 else messages (run_timer p t (retryFailedMessage p rng env mid st)) ! i = messages st ! i)"
proof -
  let ?t = "\<lparr>timer_id = nextTimerId st, delay = int (rng (randomCalls st)) + 500,
             action = RetrySend mid m\<rparr>"
  let ?st1 = "retryFailedMessage p rng env mid st"
  have t: "timers ?st1 = timers st @ [?t]" using retryFailedMessage_timer [OF reg conn] .
  have r: "run_timer p ?t ?st1 = retry_timeout p mid m ?st1" by (simp add: run_timer_def)
  from retry_timeout_success [OF enc snd, of mid]
  have a: "map_of (failedMessagesRef (run_timer p ?t ?st1)) mid = None"
    and b: "messages (run_timer p ?t ?st1) = messages ?st1" by (simp_all add: r)
  from retryFailedMessage_messages [OF reg conn, of p rng]
  have c: "messages ?st1 = map (\<lambda>msg. if msg_id msg = mid
                       then msg\<lparr>status := Sending, retryCount := Some (retry_count msg + 1)\<rparr>
                       else msg) (messages st)" by simp
  have d: "length (messages (run_timer p ?t ?st1)) = length (messages st)"
    by (simp add: b c)
  have e: "\<forall>i < length (messages st).
                 if msg_id (messages st ! i) = mid
                 then retry_count (messages (run_timer p ?t ?st1) ! i)
                        = retry_count (messages st ! i) + 1
                 else messages (run_timer p ?t ?st1) ! i = messages st ! i"
    by (simp add: b c retry_count_def)
  from t a d e show ?thesis by (intro exI [of _ ?t]) simp
qed

theorem successful_retry_counts_once_witness:
  "map_of (failedMessagesRef withFailed) (ascii ''7'') = Some lost
   \<and> r_isConnected (snapshot withFailed)
   \<and> retry_count (messages withFailed ! 1) = 0
   \<and> (\<exists>t. timers (retryFailedMessage defaultProps noRandom (snapshot withFailed) (ascii ''7'') withFailed) = [t]
          \<and> map_of (failedMessagesRef
                (run_timer defaultProps t
                   (retryFailedMessage defaultProps noRandom (snapshot withFailed) (ascii ''7'') withFailed)))
               (ascii ''7'') = None
          \<and> retry_count
               (messages
                  (run_timer defaultProps t
                     (retryFailedMessage defaultProps noRandom (snapshot withFailed) (ascii ''7'') withFailed)) ! 1) = 1
          \<and> messages
               (run_timer defaultProps t
                  (retryFailedMessage defaultProps noRandom (snapshot withFailed) (ascii ''7'') withFailed)) ! 0
              = messages withFailed ! 0)"
proof -
  let ?st1 = "retryFailedMessage defaultProps noRandom (snapshot withFailed) (ascii ''7'') withFailed"
  have k: "encryptionKey defaultProps = []" by (simp add: defaultProps_def)
  have ts: "toISOString (timestamp lost) = Inr (ascii ''1970-01-01T00:00:00.000Z'')"
    by (simp add: lost_def epoch_text)
  note enc = encryptedMessage_plain [OF k ts]
  have w: "wsRef ?st1 = Some 0"
    using withFailed_fields
    by (simp add: retryFailedMessage_def setTimeout_def Let_def)
  have so: "sockets ?st1 = [\<lparr>readyState = OPEN, transmitted = [], handlers = firstRender\<rparr>]"
    using withFailed_fields by (simp add: retryFailedMessage_sockets)
  have "\<exists>st'. ref_send (JSON_stringify_object
                  [(ascii ''id'', JStr (msg_id lost)), (ascii ''content'', content lost),
                   (ascii ''timestamp'', JStr (ascii ''1970-01-01T00:00:00.000Z''))]) ?st1 = Inr st'"
    by (simp add: ref_send_def ws_send_def w so)
  then obtain st' where snd: "ref_send (JSON_stringify_object
                  [(ascii ''id'', JStr (msg_id lost)), (ascii ''content'', content lost),
                   (ascii ''timestamp'', JStr (ascii ''1970-01-01T00:00:00.000Z''))]) ?st1 = Inr st'"
    by blast
  have n: "ascii ''g'' \<noteq> ascii ''7''" by (simp add: ascii_def)
  have i: "msg_id lost = ascii ''7''" by (simp add: lost_def)
  have rc: "retry_count lost = 0" by (simp add: lost_def retry_count_def)
  from successful_retry_counts_once [OF withFailed_fields(1) withFailed_fields(2) enc snd]
  obtain t where t1: "timers ?st1 = timers withFailed @ [t]"
    and t2: "map_of (failedMessagesRef (run_timer defaultProps t ?st1)) (ascii ''7'') = None"
    and t3: "\<forall>i < length (messages withFailed).
                 if msg_id (messages withFailed ! i) = ascii ''7''
                 then retry_count (messages (run_timer defaultProps t ?st1) ! i)
                        = retry_count (messages withFailed ! i) + 1
                 else messages (run_timer defaultProps t ?st1) ! i = messages withFailed ! i"
    by blast
  from t3 [rule_format, of 1] have c1: "retry_count (messages (run_timer defaultProps t ?st1) ! 1) = 1"
    by (simp add: withFailed_fields i rc)
  from t3 [rule_format, of 0] n have c0: "messages (run_timer defaultProps t ?st1) ! 0 = messages withFailed ! 0"
    by (simp add: withFailed_fields)
  have r0: "retry_count (messages withFailed ! 1) = 0" by (simp add: withFailed_fields rc)
  from t1 t2 c1 c0 r0 withFailed_fields(1,2,3) show ?thesis by auto
qed

section \<open>Opening a connection\<close>

lemma flushMessageQueue_stale: "\<not> r_isConnected env \<Longrightarrow> flushMessageQueue p env st = st"
  by (simp add: flushMessageQueue_def)

lemma retryFailedMessage_stale:
  "\<not> r_isConnected env \<Longrightarrow>
     retryFailedMessage p rng env mid st = st\<lparr>retryMessageId := Some mid\<rparr>"
  by (simp add: retryFailedMessage_def Let_def split: option.splits)

lemma fold_retry_stale:
  assumes "\<not> r_isConnected env"
  shows "messageQueueRef (fold (\<lambda>m. retryFailedMessage p rng env (msg_id m)) ms st) = messageQueueRef st
       \<and> sockets (fold (\<lambda>m. retryFailedMessage p rng env (msg_id m)) ms st) = sockets st
       \<and> timers (fold (\<lambda>m. retryFailedMessage p rng env (msg_id m)) ms st) = timers st
       \<and> failedMessagesRef (fold (\<lambda>m. retryFailedMessage p rng env (msg_id m)) ms st) = failedMessagesRef st"
  using assms by (induction ms arbitrary: st) (simp_all add: retryFailedMessage_stale)

lemma connectWebSocket_guard:
  "sockets (connectWebSocket p env c st) \<noteq> sockets st \<Longrightarrow> \<not> r_isConnected env"
  by (auto simp: connectWebSocket_def)

text \<open>
  From a render that is connected, \<open>flushMessageQueue\<close> hands the frames of the queued
  messages to the open socket in the order of the queue and empties the queue.
\<close>

lemma sendMessage_open_socket:
  assumes "r_isConnected env" and "encryptedMessage p m = Inr data"
    and "wsRef st = Some i" and "i < length (sockets st)"
    and "readyState (sockets st ! i) = OPEN"
  shows "wsRef (sendMessage p env m st) = Some i
       \<and> length (sockets (sendMessage p env m st)) = length (sockets st)
       \<and> readyState (sockets (sendMessage p env m st) ! i) = OPEN
       \<and> transmitted (sockets (sendMessage p env m st) ! i) = transmitted (sockets st ! i) @ [data]
       \<and> messageQueueRef (sendMessage p env m st) = messageQueueRef st"
  using assms by (simp add: sendMessage_def ref_send_def ws_send_def)

lemma fold_sendMessage_fifo:
  assumes "r_isConnected env" and "map (encryptedMessage p) ms = map Inr frames"
    and "wsRef st = Some i" and "i < length (sockets st)"
    and "readyState (sockets st ! i) = OPEN"
  shows "wsRef (fold (sendMessage p env) ms st) = Some i
       \<and> length (sockets (fold (sendMessage p env) ms st)) = length (sockets st)
       \<and> readyState (sockets (fold (sendMessage p env) ms st) ! i) = OPEN
       \<and> transmitted (sockets (fold (sendMessage p env) ms st) ! i) =
           transmitted (sockets st ! i) @ frames"
  using assms
proof (induction ms arbitrary: st frames)
  case Nil
  then show ?case by simp
next
  case (Cons m ms)
  from Cons.prems(2) obtain data rest where f: "frames = data # rest"
    and e: "encryptedMessage p m = Inr data"
    and r: "map (encryptedMessage p) ms = map Inr rest"
    by (cases frames) auto
  note s = sendMessage_open_socket [OF Cons.prems(1) e Cons.prems(3) Cons.prems(4) Cons.prems(5)]
  from s have s1: "wsRef (sendMessage p env m st) = Some i"
    and s2: "i < length (sockets (sendMessage p env m st))"
    and s3: "readyState (sockets (sendMessage p env m st) ! i) = OPEN"
    using Cons.prems(4) by simp_all
  from Cons.IH [OF Cons.prems(1) r s1 s2 s3] s show ?case by (simp add: f)
qed

lemma flushMessageQueue_fifo:
  assumes "r_isConnected env" and "map (encryptedMessage p) (messageQueueRef st) = map Inr frames"
    and "wsRef st = Some i" and "i < length (sockets st)"
    and "readyState (sockets st ! i) = OPEN"
  shows "messageQueueRef (flushMessageQueue p env st) = []
       \<and> transmitted (sockets (flushMessageQueue p env st) ! i) =
           transmitted (sockets st ! i) @ frames"
proof (cases "messageQueueRef st")
  case Nil
  with assms(2) show ?thesis by (simp add: flushMessageQueue_def)
next
  case (Cons m ms)
  with fold_sendMessage_fifo [OF assms] assms(1) show ?thesis
    by (simp add: flushMessageQueue_def)
qed

text \<open>
  \<open>connectWebSocket\<close> makes a socket only from a render that is not connected, and the
  \<open>onopen\<close> handler of that socket calls the \<open>flushMessageQueue\<close> and \<open>flushFailedMessages\<close>
  of the same render, whose test of \<open>isConnected\<close> fails: whatever the queue and the
  registry hold, the open event leaves them as they are and hands nothing to a socket.
\<close>

lemma stale_open_does_not_flush:
  "(sockets (connectWebSocket p env c st0) \<noteq> sockets st0 \<longrightarrow> \<not> r_isConnected env)
   \<and> (\<not> r_isConnected env \<longrightarrow>
        messageQueueRef (ws_onopen p rng env st) = messageQueueRef st
        \<and> sockets (ws_onopen p rng env st) = sockets st
        \<and> timers (ws_onopen p rng env st) = timers st
        \<and> failedMessagesRef (ws_onopen p rng env st) = failedMessagesRef st)"
  using connectWebSocket_guard [of p env c st0]
  by (auto simp: ws_onopen_def flushFailedMessages_def flushMessageQueue_stale fold_retry_stale)

section \<open>Failing connections\<close>

lemma retrying_first: "retrying 0 (failed_attempt defaultProps noRandom mounted)"
  by (simp add: retrying_def failed_attempt_def mounted_eq fire_def set_readyState_def
      ws_onerror_def ws_close_def ws_onclose_def handleConnectionRetry_def setTimeout_def
      rerender_def snapshot_def connectWebSocket_def run_timer_def firstRender_def
      defaultProps_def Let_def)

lemma retrying_step:
  assumes "retrying n st"
  shows "retrying (Suc n) (failed_attempt defaultProps noRandom st)"
proof -
  from assms have c: "connectionRetryCount st = 1"
    and cr: "r_connectionRetryCount (connectRender st) = 1"
    and w: "wsRef st = Some (Suc n)"
    and l: "length (sockets st) = Suc (Suc n)"
    and h: "handlers (sockets st ! Suc n) = firstRender"
    and lt: "length (timers st) = Suc n"
    and at: "list_all (\<lambda>t. action t = Reconnect 1 firstRender) (timers st)"
    and se: "\<not> showErrorMessage st"
    and no: "list_all (\<lambda>x. x = ReconnectAttempt 1) (notices st)"
    by (simp_all add: retrying_def)
  from lt obtain t ts where ts: "timers st = t # ts" by (cases "timers st") auto
  from at ts have a0: "action t = Reconnect 1 firstRender"
    and ar: "list_all (\<lambda>t. action t = Reconnect 1 firstRender) ts" by simp_all
  from lt ts have lts: "length ts = n" by simp
  show ?thesis
    using c cr w l h se no a0 ar lts ts
    by (simp add: retrying_def failed_attempt_def fire_def set_readyState_def
        ws_onerror_def ws_close_def ws_onclose_def handleConnectionRetry_def setTimeout_def
        rerender_def connectWebSocket_def run_timer_def firstRender_def
        defaultProps_def Let_def nth_append)
qed

lemma retrying_always: "retrying n ((failed_attempt defaultProps noRandom ^^ Suc n) mounted)"
proof (induction n)
  case 0
  then show ?case by (simp add: retrying_first)
next
  case (Suc n)
  from retrying_step [OF Suc] show ?case by simp
qed

text \<open>
  C5 fails on the code. With the default props (\<open>maxRetries = 5\<close>), after any number
  \<open>n + 1\<close> of consecutive failed connection attempts the component has not given up: its
  \<open>connectionRetryCount\<close> is still 1, it has made \<open>n + 2\<close> sockets, the last of them is
  connecting, reconnect timers are pending, the "connection closed" error is not shown
  and the "maximum retries reached" notice was never given. Every socket is made by the
  \<open>connectWebSocket\<close> of the first render, whose handlers read \<open>connectionRetryCount = 0\<close>.
\<close>

theorem failures_never_reach_failed:
  "connectionRetryCount ((failed_attempt defaultProps noRandom ^^ Suc n) mounted) = 1
   \<and> length (sockets ((failed_attempt defaultProps noRandom ^^ Suc n) mounted)) = n + 2
   \<and> wsRef ((failed_attempt defaultProps noRandom ^^ Suc n) mounted) = Some (n + 1)
   \<and> readyState (sockets ((failed_attempt defaultProps noRandom ^^ Suc n) mounted) ! (n + 1)) = CONNECTING
   \<and> length (timers ((failed_attempt defaultProps noRandom ^^ Suc n) mounted)) = n + 1
   \<and> \<not> showErrorMessage ((failed_attempt defaultProps noRandom ^^ Suc n) mounted)
   \<and> MaxRetriesReached (maxRetries defaultProps)
        \<notin> set (notices ((failed_attempt defaultProps noRandom ^^ Suc n) mounted))"
proof -
  let ?st = "(failed_attempt defaultProps noRandom ^^ Suc n) mounted"
  have r: "retrying n ?st" by (rule retrying_always)
  then have "list_all (\<lambda>x. x = ReconnectAttempt 1) (notices ?st)" by (simp add: retrying_def)
  then have "MaxRetriesReached (maxRetries defaultProps) \<notin> set (notices ?st)"
    by (auto simp: list_all_iff)
  with r show ?thesis by (simp add: retrying_def)
qed

section \<open>The codec on Latin-1 text\<close>

text \<open>
  On a text whose code units are all below 256, \<open>atob\<close> undoes \<open>btoa\<close>, so under every key
  \<open>decryptMessage\<close> undoes \<open>encryptMessage\<close>.
\<close>

lemma padding_step: "padding (a # b # c # rest) = padding rest"
  by (simp add: padding_def)

lemma encode_sextets: "base64_encode s = map b64_char (sextets s) @ padding s"
  by (induction s rule: base64_encode.induct) (simp_all add: padding_step, simp_all add: padding_def numeral_2_eq_2)

lemma sextets_small: "list_all (\<lambda>b. b < 256) s \<Longrightarrow> list_all (\<lambda>x. x < 64) (sextets s)"
  by (induction s rule: sextets.induct) auto

lemma index_char: "x < 64 \<Longrightarrow> b64_index (b64_char x) = Some x"
  by (auto simp: b64_index_def b64_char_def)

lemma indices_chars: "list_all (\<lambda>x. x < 64) xs \<Longrightarrow> b64_indices (map b64_char xs) = Some xs"
  by (induction xs) (simp_all add: index_char)

lemma char_plain: "x < 64 \<Longrightarrow> \<not> is_ascii_whitespace (b64_char x) \<and> b64_char x \<noteq> 61"
  by (auto simp: is_ascii_whitespace_def b64_char_def)

lemma decode_sextets_inverse: "list_all (\<lambda>b. b < 256) s \<Longrightarrow> decode_sextets (sextets s) = s"
  by (induction s rule: sextets.induct) auto

lemma sextets_length: "length (sextets s) mod 4 \<noteq> 1 \<and> (length (sextets s) + length (padding s)) mod 4 = 0
   \<and> (s \<noteq> [] \<longrightarrow> sextets s \<noteq> [])"
  by (induction s rule: sextets.induct) (simp_all add: padding_step, simp_all add: padding_def numeral_2_eq_2)


lemma last_chars:
  assumes "list_all (\<lambda>x. x < 64) xs" and "xs \<noteq> []"
  shows "last (map b64_char xs) \<noteq> 61"
proof -
  from assms have "last xs < 64" by (simp add: list_all_iff)
  with assms(2) show ?thesis by (simp add: last_map char_plain)
qed

lemma strip_padding_encoded:
  assumes "list_all (\<lambda>x. x < 64) xs" and "k \<le> 2" and "0 < k \<longrightarrow> xs \<noteq> []"
    and "(length xs + k) mod 4 = 0"
  shows "strip_padding (map b64_char xs @ replicate k 61) = map b64_char xs"
proof -
  consider "k = 0" | "k = 1" | "k = 2" using assms(2) by linarith
  then show ?thesis
  proof cases
    case 1
    then show ?thesis using assms(1) last_chars [of xs]
      by (cases "xs = []") (simp_all add: strip_padding_def)
  next
    case 2
    with assms(3) have n: "xs \<noteq> []" by simp
    from 2 assms(4) n last_chars [OF assms(1) n] show ?thesis
      by (simp add: strip_padding_def butlast_append)
  next
    case 3
    with assms(3) have n: "xs \<noteq> []" by simp
    have r: "replicate 2 (61::nat) = [61, 61]" by (simp add: numeral_2_eq_2)
    from 3 assms(4) n last_chars [OF assms(1) n] show ?thesis
      by (simp add: strip_padding_def butlast_append r)
  qed
qed

lemma filter_encoded:
  assumes "list_all (\<lambda>x. x < 64) xs"
  shows "filter (\<lambda>c. \<not> is_ascii_whitespace c) (map b64_char xs @ replicate k 61) =
           map b64_char xs @ replicate k 61"
proof -
  have "\<forall>c \<in> set (map b64_char xs @ replicate k 61). \<not> is_ascii_whitespace c"
  proof
    fix c assume "c \<in> set (map b64_char xs @ replicate k 61)"
    then consider x where "x \<in> set xs" and "c = b64_char x" | "c = 61" by auto
    then show "\<not> is_ascii_whitespace c"
    proof cases
      case 1
      with assms have "x < 64" by (simp add: list_all_iff)
      with 1 show ?thesis by (simp add: char_plain)
    next
      case 2
      then show ?thesis by (simp add: is_ascii_whitespace_def)
    qed
  qed
  then show ?thesis by (simp only: filter_True)
qed

lemma atob_btoa:
  assumes "list_all (\<lambda>b. b < 256) s"
  shows "btoa s = Inr (base64_encode s) \<and> atob (base64_encode s) = Inr s"
proof -
  let ?xs = "sextets s"
  let ?k = "(3 - length s mod 3) mod 3"
  from assms have b: "btoa s = Inr (base64_encode s)"
    by (auto simp: btoa_def list_all_iff list_ex_iff)
  have small: "list_all (\<lambda>x. x < 64) ?xs" using assms by (rule sextets_small)
  have e: "base64_encode s = map b64_char ?xs @ replicate ?k 61"
    by (simp add: encode_sextets padding_def)
  have k2: "?k \<le> 2" by arith
  have ne: "0 < ?k \<longrightarrow> ?xs \<noteq> []"
    using sextets_length [of s] by (cases "s = []") simp_all
  have l4: "(length ?xs + ?k) mod 4 = 0" using sextets_length [of s] by (simp add: padding_def)
  have st: "strip_padding (filter (\<lambda>c. \<not> is_ascii_whitespace c) (base64_encode s)) =
              map b64_char ?xs"
    by (simp only: e filter_encoded [OF small] strip_padding_encoded [OF small k2 ne l4])
  have l1: "length (map b64_char ?xs) mod 4 \<noteq> 1" using sextets_length [of s] by simp
  from l1 have "atob (base64_encode s) = Inr s"
    by (simp add: atob_def st Let_def indices_chars [OF small] decode_sextets_inverse [OF assms])
  with b show ?thesis by simp
qed

lemma codec_roundtrip_latin1:
  assumes "list_all (\<lambda>b. b < 256) message"
  shows "\<exists>encrypted. encryptMessage key message = Inr encrypted
           \<and> decryptMessage key encrypted = Inr message"
  using atob_btoa [OF assms] by (simp add: encryptMessage_def decryptMessage_def)

section \<open>Encoding a message under a key\<close>

text \<open>
  C1 fails on the code. Under a non-empty key, a message whose content has a character
  beyond Latin-1 cannot be encoded: \<open>btoa\<close> throws, so \<open>sendMessage\<close> marks the message as
  failed and nothing reaches the socket. Under the empty key the same message is encoded,
  and on Latin-1 text the codec is reversible under every key (\<open>codec_roundtrip_latin1\<close>).
\<close>

theorem keyed_encoding_rejects_chinese:
  "encryptedMessage keyedProps nihao = Inl InvalidCharacterError
   \<and> (\<exists>data. encryptedMessage defaultProps nihao = Inr data)
   \<and> map transmitted
        (sockets (sendMessage keyedProps (snapshot opened) nihao
                    (opened\<lparr>messages := messages opened @ [nihao]\<rparr>))) = [[]]
   \<and> map status
        (messages (sendMessage keyedProps (snapshot opened) nihao
                     (opened\<lparr>messages := messages opened @ [nihao]\<rparr>))) = [Sent, Failed]"
proof -
  have ts: "toISOString (timestamp nihao) = Inr (ascii ''1970-01-01T00:00:00.000Z'')"
    by (simp add: nihao_def epoch_text)
  have k: "encryptionKey keyedProps \<noteq> []" by (simp add: keyedProps_def ascii_def)
  have b: "btoa (JSON_stringify_object
             [(ascii ''id'', JStr (msg_id nihao)), (ascii ''content'', content nihao),
              (ascii ''timestamp'', JStr (ascii ''1970-01-01T00:00:00.000Z''))])
           = Inl InvalidCharacterError"
    by (simp add: btoa_def JSON_stringify_object_def QuoteJSONString_def escape_unit_def
        is_high_surrogate_def is_low_surrogate_def ascii_def nihao_def)
  have e: "encryptedMessage keyedProps nihao = Inl InvalidCharacterError"
    using k by (simp add: encryptedMessage_def ts encryptMessage_def b)
  have d: "\<exists>data. encryptedMessage defaultProps nihao = Inr data"
    by (simp add: encryptedMessage_def ts encryptMessage_def defaultProps_def)
  have n: "ascii ''g'' \<noteq> ascii ''2''" by (simp add: ascii_def)
  have i: "msg_id nihao = ascii ''2''" by (simp add: nihao_def)
  have c: "r_isConnected (snapshot opened)" by (simp add: snapshot_def opened_eq)
  have s: "sendMessage keyedProps (snapshot opened) nihao (opened\<lparr>messages := messages opened @ [nihao]\<rparr>)
         = (opened\<lparr>messages := messages opened @ [nihao]\<rparr>)
             \<lparr>messages := set_status (msg_id nihao) Failed (messages opened @ [nihao]),
              notices := notices opened @ [SendFailed]\<rparr>"
    using c by (simp add: sendMessage_def e)
  have t: "map transmitted (sockets (sendMessage keyedProps (snapshot opened) nihao
                    (opened\<lparr>messages := messages opened @ [nihao]\<rparr>))) = [[]]"
    by (simp add: s) (simp add: opened_eq)
  have u: "map status (messages (sendMessage keyedProps (snapshot opened) nihao
                     (opened\<lparr>messages := messages opened @ [nihao]\<rparr>))) = [Sent, Failed]"
    using n by (simp add: s) (simp add: opened_eq set_status_def i)
  from e d t u show ?thesis by blast
qed

section \<open>The queue and the registry in reachable states\<close>

lemma refs_handleConnectionRetry:
  "messageQueueRef (handleConnectionRetry p env st) = messageQueueRef st
   \<and> failedMessagesRef (handleConnectionRetry p env st) = failedMessagesRef st"
  by (simp add: handleConnectionRetry_def setTimeout_def Let_def)

lemma refs_ws_close:
  "messageQueueRef (ws_close i st) = messageQueueRef st
   \<and> failedMessagesRef (ws_close i st) = failedMessagesRef st"
  by (simp add: ws_close_def)

lemma refs_connectWebSocket:
  "messageQueueRef (connectWebSocket p env c st) = messageQueueRef st
   \<and> failedMessagesRef (connectWebSocket p env c st) = failedMessagesRef st"
  by (simp add: connectWebSocket_def Let_def refs_handleConnectionRetry)

lemma refs_ws_onmessage:
  "messageQueueRef (ws_onmessage p data st) = messageQueueRef st
   \<and> failedMessagesRef (ws_onmessage p data st) = failedMessagesRef st"
  by (simp add: ws_onmessage_def split: sum.splits)

lemma refs_retryFailedMessage:
  "messageQueueRef (retryFailedMessage p rng env mid st) = messageQueueRef st
   \<and> failedMessagesRef (retryFailedMessage p rng env mid st) = failedMessagesRef st"
  by (simp add: retryFailedMessage_def setTimeout_def Let_def split: option.splits)

lemma refs_sendMessage_connected:
  assumes "r_isConnected env"
  shows "messageQueueRef (sendMessage p env m st) = messageQueueRef st
       \<and> failedMessagesRef (sendMessage p env m st) = failedMessagesRef st"
proof (cases "encryptedMessage p m")
  case (Inl e)
  then show ?thesis using assms by (simp add: sendMessage_def)
next
  case (Inr data)
  then show ?thesis using assms ref_send_fields [of data st]
    by (cases "ref_send data st") (simp_all add: sendMessage_def)
qed

lemma refs_handleSend:
  "messageQueueRef (handleSend p env uuid now st) = messageQueueRef st
   \<and> failedMessagesRef (handleSend p env uuid now st) = failedMessagesRef st"
  by (simp add: handleSend_def Let_def refs_sendMessage_connected)

lemma empty_refs_ws_onopen:
  assumes "messageQueueRef st = []" and "failedMessagesRef st = []"
  shows "ws_onopen p rng env st =
           st\<lparr>isConnected := True, isConnecting := False, isAutoConnecting := False,
              connectionRetryCount := 0, notices := notices st @ [ConnectedToServer]\<rparr>"
  using assms by (simp add: ws_onopen_def flushMessageQueue_def flushFailedMessages_def)

lemma empty_refs_retry_timeout:
  assumes "messageQueueRef st = []" and "failedMessagesRef st = []"
  shows "messageQueueRef (retry_timeout p mid m st) = []
       \<and> failedMessagesRef (retry_timeout p mid m st) = []"
proof (cases "encryptedMessage p m")
  case (Inl e)
  then show ?thesis using assms by (simp add: retry_timeout_def)
next
  case (Inr data)
  show ?thesis
  proof (cases "ref_send data st")
    case (Inl e)
    with Inr assms show ?thesis by (simp add: retry_timeout_def)
  next
    case (Inr st')
    from ref_send_fields [OF this] assms
    have "messageQueueRef st' = []" and "failedMessagesRef st' = []" by simp_all
    with Inr \<open>encryptedMessage p m = Inr data\<close> show ?thesis
      by (simp add: retry_timeout_def)
  qed
qed

lemma empty_refs_fire:
  assumes "messageQueueRef st = []" and "failedMessagesRef st = []"
  shows "messageQueueRef (fire p rng ev st) = [] \<and> failedMessagesRef (fire p rng ev st) = []"
proof (cases ev)
  case (Open i)
  then show ?thesis using assms
    by (simp add: fire_def set_readyState_def empty_refs_ws_onopen)
next
  case (Message i data)
  then show ?thesis using assms by (simp add: fire_def refs_ws_onmessage)
next
  case (Error i)
  then show ?thesis using assms
    by (simp add: fire_def ws_onerror_def set_readyState_def refs_handleConnectionRetry refs_ws_close)
next
  case (Close i code)
  then show ?thesis using assms
    by (simp add: fire_def ws_onclose_def set_readyState_def refs_handleConnectionRetry Let_def)
next
  case (Timeout k)
  show ?thesis
  proof (cases "find (\<lambda>t. timer_id t = k) (timers st)")
    case None
    with Timeout assms show ?thesis by (simp add: fire_def)
  next
    case (Some t)
    have "messageQueueRef (run_timer p t (st\<lparr>timers := remove1 t (timers st)\<rparr>)) = []
        \<and> failedMessagesRef (run_timer p t (st\<lparr>timers := remove1 t (timers st)\<rparr>)) = []"
      using assms
      by (cases "action t")
         (simp_all add: run_timer_def refs_connectWebSocket empty_refs_retry_timeout)
    with Timeout Some show ?thesis by (simp add: fire_def)
  qed
next
  case (Render c)
  then show ?thesis using assms
    by (simp add: fire_def rerender_def refs_connectWebSocket refs_ws_close split: option.splits)
qed

lemma reachable_refs_empty:
  assumes "reachable p st"
  shows "messageQueueRef st = [] \<and> failedMessagesRef st = []"
  using assms
proof (induction rule: reachable.induct)
  case (at_mount uuid now)
  show ?case by (simp add: mount_def refs_connectWebSocket initialState_def)
next
  case (after_event st rng ev)
  then show ?case by (simp add: empty_refs_fire)
next
  case (after_typing st v)
  then show ?case by simp
next
  case (after_submit st env uuid now)
  then show ?case by (simp add: refs_handleSend)
next
  case (after_retry_prompt st rng env msg)
  then show ?case by (simp add: Popconfirm_onConfirm_def refs_retryFailedMessage)
next
  case (after_reconnect_button st env constructed)
  then show ?case by (simp add: refs_connectWebSocket)
qed




section \<open>The retry prompt in reachable states\<close>

lemma enc_nihao: "encryptedMessage keyedProps nihao = Inl InvalidCharacterError"
proof -
  have ts: "toISOString (timestamp nihao) = Inr (ascii ''1970-01-01T00:00:00.000Z'')"
    by (simp add: nihao_def epoch_text)
  have k: "encryptionKey keyedProps \<noteq> []" by (simp add: keyedProps_def ascii_def)
  have b: "btoa (JSON_stringify_object
             [(ascii ''id'', JStr (msg_id nihao)), (ascii ''content'', content nihao),
              (ascii ''timestamp'', JStr (ascii ''1970-01-01T00:00:00.000Z''))])
           = Inl InvalidCharacterError"
    by (simp add: btoa_def JSON_stringify_object_def QuoteJSONString_def escape_unit_def
        is_high_surrogate_def is_low_surrogate_def ascii_def nihao_def)
  show ?thesis using k by (simp add: encryptedMessage_def ts encryptMessage_def b)
qed

lemma trim_nihao: "trim [20320, 22909] \<noteq> []"
  by (simp add: trim_def is_js_space_def)

lemma failedSend_eq:
  "failedSend =
     \<lparr>messages =
        [\<lparr>msg_id = ascii ''g'', content = JStr greeting, role = Ai, timestamp = 0,
          status = Sent, retryCount = None\<rparr>, nihao\<lparr>status := Failed\<rparr>],
      inputValue = [], isConnected = True, isConnecting = False, error = None,
      showErrorMessage = False, retryMessageId = None, connectionRetryCount = 0,
      isAutoConnecting = False, retryTimeoutRef = None, wsRef = Some 0,
      failedMessagesRef = [], messageQueueRef = [], connectRender = firstRender,
      sockets = [\<lparr>readyState = OPEN, transmitted = [], handlers = firstRender\<rparr>],
      timers = [], nextTimerId = 0, randomCalls = 0,
      notices = [ConnectedToServer, SendFailed], renderError = None\<rparr>"
proof -
  have h: "\<lparr>msg_id = ascii ''2'', content = JStr [20320, 22909], role = User, timestamp = 0,
      status = Sending, retryCount = None\<rparr> = nihao" by (simp add: nihao_def)
  have i: "msg_id nihao = ascii ''2''" by (simp add: nihao_def)
  have n: "ascii ''g'' \<noteq> ascii ''2''" by (simp add: ascii_def)
  show ?thesis
    using trim_nihao n
    by (simp add: failedSend_def opened_eq snapshot_def handleSend_def h Let_def
        sendMessage_def enc_nihao set_status_def i)
qed

lemma opened_keyed: "fire keyedProps noRandom (Open 0) (mount keyedProps (ascii ''g'') 0) = opened"
  by (simp add: opened_eq mount_def connectWebSocket_def initialState_def snapshot_def
      firstRender_def Let_def fire_def set_readyState_def ws_onopen_def
      flushMessageQueue_def flushFailedMessages_def)

lemma failedSend_reachable: "reachable keyedProps failedSend"
proof -
  have "reachable keyedProps (mount keyedProps (ascii ''g'') 0)" by (rule reachable.at_mount)
  then have "reachable keyedProps (fire keyedProps noRandom (Open 0) (mount keyedProps (ascii ''g'') 0))"
    by (rule reachable.after_event)
  then have "reachable keyedProps opened" by (simp only: opened_keyed)
  then have "reachable keyedProps (opened\<lparr>inputValue := [20320, 22909]\<rparr>)"
    by (rule reachable.after_typing)
  then show ?thesis unfolding failedSend_def by (rule reachable.after_submit)
qed

text \<open>
  C9 fails on the code. In every state the component can be in, confirming the retry
  prompt of a message only records the message id in \<open>retryMessageId\<close>: no frame is handed
  to a socket and no timer is set, so the message is never sent again. Nothing ever puts
  a failed message into the registry that \<open>retryFailedMessage\<close> reads.
\<close>

theorem manual_retry_sends_nothing:
  assumes "reachable p st"
  shows "Popconfirm_onConfirm p rng env msg st = st\<lparr>retryMessageId := Some (msg_id msg)\<rparr>"
proof -
  from reachable_refs_empty [OF assms] have "failedMessagesRef st = []" by simp
  then show ?thesis by (simp add: Popconfirm_onConfirm_def retryFailedMessage_def Let_def)
qed

theorem manual_retry_sends_nothing_witness:
  "reachable keyedProps failedSend
   \<and> map status (messages failedSend) = [Sent, Failed]
   \<and> map readyState (sockets failedSend) = [OPEN]
   \<and> Popconfirm_onConfirm keyedProps noRandom (snapshot failedSend) (messages failedSend ! 1) failedSend
       = failedSend\<lparr>retryMessageId := Some (ascii ''2'')\<rparr>
   \<and> map transmitted
        (sockets (Popconfirm_onConfirm keyedProps noRandom (snapshot failedSend)
                    (messages failedSend ! 1) failedSend)) = [[]]
   \<and> timers (Popconfirm_onConfirm keyedProps noRandom (snapshot failedSend)
                (messages failedSend ! 1) failedSend) = []"
proof -
  have i: "msg_id (messages failedSend ! 1) = ascii ''2''"
    by (simp add: failedSend_eq nihao_def)
  have s: "map status (messages failedSend) = [Sent, Failed]"
    by (simp add: failedSend_eq nihao_def)
  have o: "map readyState (sockets failedSend) = [OPEN]" by (simp add: failedSend_eq)
  have t: "map transmitted (sockets failedSend) = [[]]" by (simp add: failedSend_eq)
  have u: "timers failedSend = []" by (simp add: failedSend_eq)
  note w = manual_retry_sends_nothing
             [OF failedSend_reachable, of noRandom "snapshot failedSend" "messages failedSend ! 1"]
  from w i s o t u failedSend_reachable show ?thesis by simp
qed

section \<open>Submitting and receiving, exactly\<close>

lemma ref_send_open:
  assumes "wsRef st = Some i" and "i < length (sockets st)"
    and "readyState (sockets st ! i) = OPEN"
  shows "ref_send data st =
           Inr (st\<lparr>sockets := (sockets st)
                  [i := (sockets st ! i)\<lparr>transmitted := transmitted (sockets st ! i) @ [data]\<rparr>]\<rparr>)"
  using assms by (simp add: ref_send_def ws_send_def)

lemma ref_send_connecting:
  assumes "wsRef st = Some i" and "i < length (sockets st)"
    and "readyState (sockets st ! i) = CONNECTING"
  shows "ref_send data st = Inl InvalidStateError"
  using assms by (simp add: ref_send_def ws_send_def)

lemma ref_send_dropped:
  assumes "wsRef st = None
         \<or> (\<exists>i. wsRef st = Some i
                \<and> (length (sockets st) \<le> i \<or> readyState (sockets st ! i) = CLOSING
                    \<or> readyState (sockets st ! i) = CLOSED))"
  shows "ref_send data st = Inr st"
  using assms by (auto simp: ref_send_def ws_send_def)

lemma handleSend_accepts:
  assumes "r_isConnected env" and "trim (r_inputValue env) \<noteq> []"
  shows "handleSend p env uuid now st =
           sendMessage p env (userMsg uuid env now)
             (st\<lparr>messages := messages st @ [userMsg uuid env now], inputValue := []\<rparr>)"
  using assms by (simp add: handleSend_def userMsg_def Let_def)

text \<open>
  C2, amended. \<open>handleSend\<close> returns nothing and accepts a submission only from a
  connected render with an input that is not blank; otherwise it leaves the state as it
  is: no message is created and nothing is queued. When it accepts, it appends the new
  message, clears the input, queues nothing, and
  \<^item> hands the frame to the component's socket when that socket is open, the message
    keeping the status \<open>sending\<close>;
  \<^item> marks the message \<open>failed\<close> and gives the "send failed" notice when encoding throws
    or the socket is still connecting, nothing reaching a socket;
  \<^item> drops the frame silently, the message keeping the status \<open>sending\<close>, when there is
    no socket or it is closing or closed.
  Only \<open>sendMessage\<close> itself, called from a render that is not connected, appends its
  message to the queue.
\<close>

theorem handleSend_submits_only_when_connected:
  "(\<not> r_isConnected env \<or> trim (r_inputValue env) = [] \<longrightarrow> handleSend p env uuid now st = st)
   \<and> (r_isConnected env \<and> trim (r_inputValue env) \<noteq> [] \<longrightarrow>
        messageQueueRef (handleSend p env uuid now st) = messageQueueRef st
        \<and> inputValue (handleSend p env uuid now st) = []
        \<and> (encryptedMessage p (userMsg uuid env now) = Inr data
             \<and> wsRef st = Some i \<and> i < length (sockets st)
             \<and> readyState (sockets st ! i) = OPEN \<longrightarrow>
             handleSend p env uuid now st =
               st\<lparr>messages := set_status uuid Sending (messages st @ [userMsg uuid env now]),
                  inputValue := [],
                  sockets := (sockets st)
                    [i := (sockets st ! i)\<lparr>transmitted := transmitted (sockets st ! i) @ [data]\<rparr>]\<rparr>)
        \<and> (encryptedMessage p (userMsg uuid env now) = Inl e
             \<or> (wsRef st = Some i \<and> i < length (sockets st)
                 \<and> readyState (sockets st ! i) = CONNECTING) \<longrightarrow>
             handleSend p env uuid now st =
               st\<lparr>messages := set_status uuid Failed (messages st @ [userMsg uuid env now]),
                  inputValue := [],
                  notices := notices st @ [SendFailed]\<rparr>)
        \<and> (encryptedMessage p (userMsg uuid env now) = Inr data
             \<and> (wsRef st = None
                 \<or> (wsRef st = Some i
                     \<and> (length (sockets st) \<le> i \<or> readyState (sockets st ! i) = CLOSING
                         \<or> readyState (sockets st ! i) = CLOSED))) \<longrightarrow>
             handleSend p env uuid now st =
               st\<lparr>messages := set_status uuid Sending (messages st @ [userMsg uuid env now]),
                  inputValue := []\<rparr>))
   \<and> (\<not> r_isConnected env \<longrightarrow>
        sendMessage p env m st = st\<lparr>messageQueueRef := messageQueueRef st @ [m]\<rparr>)"
proof -
  let ?U = "userMsg uuid env now"
  let ?st = "st\<lparr>messages := messages st @ [?U], inputValue := []\<rparr>"
  have u: "msg_id ?U = uuid" by (simp add: userMsg_def)
  have a: "\<not> r_isConnected env \<or> trim (r_inputValue env) = [] \<longrightarrow> handleSend p env uuid now st = st"
    by (auto simp: handleSend_def)
  have c: "\<not> r_isConnected env \<longrightarrow>
        sendMessage p env m st = st\<lparr>messageQueueRef := messageQueueRef st @ [m]\<rparr>"
    by (simp add: sendMessage_disconnected)
  {
    assume h: "r_isConnected env \<and> trim (r_inputValue env) \<noteq> []"
    then have conn: "r_isConnected env" by simp
    from h have e: "handleSend p env uuid now st = sendMessage p env ?U ?st"
      by (simp add: handleSend_accepts)
    from refs_sendMessage_connected [OF conn, of p ?U ?st]
    have b1: "messageQueueRef (handleSend p env uuid now st) = messageQueueRef st"
      by (simp add: e)
    from sendMessage_connected [OF conn, of p ?U ?st]
    have b2: "inputValue (handleSend p env uuid now st) = []" by (auto simp: e)
    have b3: "encryptedMessage p ?U = Inr data
             \<and> wsRef st = Some i \<and> i < length (sockets st)
             \<and> readyState (sockets st ! i) = OPEN \<longrightarrow>
             handleSend p env uuid now st =
               st\<lparr>messages := set_status uuid Sending (messages st @ [?U]),
                  inputValue := [],
                  sockets := (sockets st)
                    [i := (sockets st ! i)\<lparr>transmitted := transmitted (sockets st ! i) @ [data]\<rparr>]\<rparr>"
    proof
      assume o: "encryptedMessage p ?U = Inr data
             \<and> wsRef st = Some i \<and> i < length (sockets st)
             \<and> readyState (sockets st ! i) = OPEN"
      then have "ref_send data ?st =
           Inr (?st\<lparr>sockets := (sockets ?st)
                  [i := (sockets ?st ! i)\<lparr>transmitted := transmitted (sockets ?st ! i) @ [data]\<rparr>]\<rparr>)"
        by (intro ref_send_open) simp_all
      with o conn show "handleSend p env uuid now st =
               st\<lparr>messages := set_status uuid Sending (messages st @ [?U]),
                  inputValue := [],
                  sockets := (sockets st)
                    [i := (sockets st ! i)\<lparr>transmitted := transmitted (sockets st ! i) @ [data]\<rparr>]\<rparr>"
        by (simp add: e sendMessage_def u)
    qed
    have b4: "encryptedMessage p ?U = Inl e
             \<or> (wsRef st = Some i \<and> i < length (sockets st)
                 \<and> readyState (sockets st ! i) = CONNECTING) \<longrightarrow>
             handleSend p env uuid now st =
               st\<lparr>messages := set_status uuid Failed (messages st @ [?U]),
                  inputValue := [],
                  notices := notices st @ [SendFailed]\<rparr>"
    proof
      assume f: "encryptedMessage p ?U = Inl e
             \<or> (wsRef st = Some i \<and> i < length (sockets st)
                 \<and> readyState (sockets st ! i) = CONNECTING)"
      show "handleSend p env uuid now st =
               st\<lparr>messages := set_status uuid Failed (messages st @ [?U]),
                  inputValue := [],
                  notices := notices st @ [SendFailed]\<rparr>"
      proof (cases "encryptedMessage p ?U")
        case (Inl e')
        with conn show ?thesis by (simp add: e sendMessage_def u)
      next
        case (Inr d)
        with f have "wsRef ?st = Some i" "i < length (sockets ?st)"
          "readyState (sockets ?st ! i) = CONNECTING" by simp_all
        then have "ref_send d ?st = Inl InvalidStateError" by (rule ref_send_connecting)
        with Inr conn show ?thesis by (simp add: e sendMessage_def u)
      qed
    qed
    have b5: "encryptedMessage p ?U = Inr data
             \<and> (wsRef st = None
                 \<or> (wsRef st = Some i
                     \<and> (length (sockets st) \<le> i \<or> readyState (sockets st ! i) = CLOSING
                         \<or> readyState (sockets st ! i) = CLOSED))) \<longrightarrow>
             handleSend p env uuid now st =
               st\<lparr>messages := set_status uuid Sending (messages st @ [?U]),
                  inputValue := []\<rparr>"
    proof
      assume d: "encryptedMessage p ?U = Inr data
             \<and> (wsRef st = None
                 \<or> (wsRef st = Some i
                     \<and> (length (sockets st) \<le> i \<or> readyState (sockets st ! i) = CLOSING
                         \<or> readyState (sockets st ! i) = CLOSED)))"
      then have "ref_send data ?st = Inr ?st" by (intro ref_send_dropped) auto
      with d conn show "handleSend p env uuid now st =
               st\<lparr>messages := set_status uuid Sending (messages st @ [?U]),
                  inputValue := []\<rparr>"
        by (simp add: e sendMessage_def u)
    qed
    note b1 b2 b3 b4 b5
  }
  with a c show ?thesis by blast
qed

theorem handleSend_submits_only_when_connected_witness:
  "\<not> r_isConnected (snapshot (typed mounted))
   \<and> handleSend defaultProps (snapshot (typed mounted)) (ascii ''1'') 0 (typed mounted) = typed mounted
   \<and> messageQueueRef (sendMessage defaultProps (snapshot (typed mounted)) hello (typed mounted)) = [hello]
   \<and> r_isConnected (snapshot (typed opened))
   \<and> trim (r_inputValue (snapshot (typed opened))) \<noteq> []
   \<and> encryptedMessage defaultProps (userMsg (ascii ''1'') (snapshot (typed opened)) 0) = Inr helloWire
   \<and> map status (messages sentHello) = [Sent, Sending]
   \<and> map transmitted (sockets sentHello) = [[helloWire]]
   \<and> messageQueueRef sentHello = []
   \<and> inputValue sentHello = []
   \<and> encryptedMessage keyedProps
        (userMsg (ascii ''2'') (snapshot (opened\<lparr>inputValue := [20320, 22909]\<rparr>)) 0)
       = Inl InvalidCharacterError
   \<and> map status (messages failedSend) = [Sent, Failed]
   \<and> map transmitted (sockets failedSend) = [[]]
   \<and> notices failedSend = [ConnectedToServer, SendFailed]"
proof -
  let ?n = "opened\<lparr>inputValue := [20320, 22909]\<rparr>"
  have d: "\<not> r_isConnected (snapshot (typed mounted))"
    by (simp add: snapshot_def typed_def mounted_eq)
  have q: "messageQueueRef (typed mounted) = []" by (simp add: typed_def mounted_eq)
  note w1 = handleSend_submits_only_when_connected
              [of "snapshot (typed mounted)" defaultProps "ascii ''1''" 0 "typed mounted"
                  helloWire 0 InvalidCharacterError hello]
  from w1 d have a1: "handleSend defaultProps (snapshot (typed mounted)) (ascii ''1'') 0 (typed mounted) = typed mounted"
    by blast
  from w1 d q have a2: "messageQueueRef (sendMessage defaultProps (snapshot (typed mounted)) hello (typed mounted)) = [hello]"
    by simp
  have c: "r_isConnected (snapshot (typed opened))"
    by (simp add: snapshot_def typed_def opened_eq)
  have t: "trim (r_inputValue (snapshot (typed opened))) \<noteq> []"
    by (simp add: snapshot_def typed_def trim_hi) (simp add: ascii_def)
  have uh: "userMsg (ascii ''1'') (snapshot (typed opened)) 0 = hello"
    by (simp add: userMsg_def hello_def snapshot_def typed_def)
  have en: "encryptedMessage defaultProps (userMsg (ascii ''1'') (snapshot (typed opened)) 0) = Inr helloWire"
    by (simp add: uh enc_hello)
  have so: "wsRef (typed opened) = Some 0" "0 < length (sockets (typed opened))"
    "readyState (sockets (typed opened) ! 0) = OPEN"
    by (simp_all add: typed_def opened_eq)
  note w2 = handleSend_submits_only_when_connected
              [of "snapshot (typed opened)" defaultProps "ascii ''1''" 0 "typed opened"
                  helloWire 0 InvalidCharacterError hello]
  from w2 c t en so have s1: "sentHello =
      (typed opened)\<lparr>messages := set_status (ascii ''1'') Sending
                         (messages (typed opened) @ [userMsg (ascii ''1'') (snapshot (typed opened)) 0]),
                     inputValue := [],
                     sockets := (sockets (typed opened))
                       [0 := (sockets (typed opened) ! 0)
                          \<lparr>transmitted := transmitted (sockets (typed opened) ! 0) @ [helloWire]\<rparr>]\<rparr>"
    unfolding sentHello_def by blast
  from w2 c t have s2: "messageQueueRef sentHello = messageQueueRef (typed opened)"
    and s3: "inputValue sentHello = []"
    unfolding sentHello_def by blast+
  have n1: "ascii ''g'' \<noteq> ascii ''1''" by (simp add: ascii_def)
  have b1: "map status (messages sentHello) = [Sent, Sending]"
    using n1 by (simp add: s1 uh) (simp add: typed_def opened_eq set_status_def hello_def)
  have b2: "map transmitted (sockets sentHello) = [[helloWire]]"
    by (simp add: s1) (simp add: typed_def opened_eq)
  have b3: "messageQueueRef sentHello = []" by (simp add: s2) (simp add: typed_def opened_eq)
  have c': "r_isConnected (snapshot ?n)" by (simp add: snapshot_def opened_eq)
  have t': "trim (r_inputValue (snapshot ?n)) \<noteq> []" by (simp add: snapshot_def trim_nihao)
  have un: "userMsg (ascii ''2'') (snapshot ?n) 0 = nihao"
    by (simp add: userMsg_def nihao_def snapshot_def)
  have en': "encryptedMessage keyedProps (userMsg (ascii ''2'') (snapshot ?n) 0) = Inl InvalidCharacterError"
    by (simp add: un enc_nihao)
  note w3 = handleSend_submits_only_when_connected
              [of "snapshot ?n" keyedProps "ascii ''2''" 0 ?n helloWire 0 InvalidCharacterError hello]
  from w3 c' t' en' have f1: "failedSend =
      ?n\<lparr>messages := set_status (ascii ''2'') Failed
                 (messages ?n @ [userMsg (ascii ''2'') (snapshot ?n) 0]),
         inputValue := [], notices := notices ?n @ [SendFailed]\<rparr>"
    unfolding failedSend_def by blast
  have n2: "ascii ''g'' \<noteq> ascii ''2''" by (simp add: ascii_def)
  have e1: "map status (messages failedSend) = [Sent, Failed]"
    using n2 by (simp add: f1 un) (simp add: opened_eq set_status_def nihao_def)
  have e2: "map transmitted (sockets failedSend) = [[]]"
    by (simp add: f1) (simp add: opened_eq)
  have e3: "notices failedSend = [ConnectedToServer, SendFailed]"
    by (simp add: f1) (simp add: opened_eq)
  from d a1 a2 c t en b1 b2 b3 s3 en' e1 e2 e3 show ?thesis by blast
qed

lemma onmessage_replaces:
  assumes "decryptMessage (encryptionKey p) data = Inr decrypted"
    and "JSON_parse decrypted = Inr parsed" and "parsed \<noteq> JNull"
    and "i < length (messages st)"
  shows "messages (ws_onmessage p data st) ! i =
           (if get_prop parsed (ascii ''id'') = JStr (msg_id (messages st ! i))
            then (messages st ! i)\<lparr>content := get_prop parsed (ascii ''content''), status := Sent\<rparr>
            else messages st ! i)"
  using assms by (auto simp: ws_onmessage_def)

lemma onmessage_dropped:
  assumes "decryptMessage (encryptionKey p) data = Inl e
         \<or> (decryptMessage (encryptionKey p) data = Inr decrypted
             \<and> (JSON_parse decrypted = Inl e' \<or> JSON_parse decrypted = Inr JNull))"
  shows "messages (ws_onmessage p data st) = messages st"
  using assms by (auto simp: ws_onmessage_def)

text \<open>
  C7, amended. Every event but a received frame (open, error, close, timers, renders),
  and the retry prompt, leave id, content, role and timestamp of every message as they
  are; \<open>handleSend\<close> only appends. A received frame leaves id, role, timestamp and
  retryCount of every message as they are. When the frame decodes to a value other than
  \<open>null\<close>, every message whose id is that value's \<open>id\<close> gets that value's \<open>content\<close> as its
  content and the status \<open>sent\<close>, and every other message stays as it is; when decoding
  fails or gives \<open>null\<close>, all messages stay as they are.
\<close>

theorem only_onmessage_rewrites_content:
  "((\<forall>j data. ev \<noteq> Message j data) \<longrightarrow>
      map created_part (messages (fire p rng ev st)) = map created_part (messages st))
   \<and> take (length (messages st)) (map created_part (messages (handleSend p env uuid now st))) =
       map created_part (messages st)
   \<and> map created_part (messages (Popconfirm_onConfirm p rng env msg st)) =
       map created_part (messages st)
   \<and> map identity_part (messages (ws_onmessage p data st)) = map identity_part (messages st)
   \<and> (decryptMessage (encryptionKey p) data = Inr decrypted
        \<and> JSON_parse decrypted = Inr parsed \<and> parsed \<noteq> JNull
        \<and> i < length (messages st) \<longrightarrow>
        messages (ws_onmessage p data st) ! i =
          (if get_prop parsed (ascii ''id'') = JStr (msg_id (messages st ! i))
           then (messages st ! i)\<lparr>content := get_prop parsed (ascii ''content''), status := Sent\<rparr>
           else messages st ! i))
   \<and> (decryptMessage (encryptionKey p) data = Inl e
        \<or> (decryptMessage (encryptionKey p) data = Inr decrypted
            \<and> (JSON_parse decrypted = Inl e' \<or> JSON_parse decrypted = Inr JNull)) \<longrightarrow>
        messages (ws_onmessage p data st) = messages st)"
proof -
  have a: "(\<forall>j data. ev \<noteq> Message j data) \<longrightarrow>
      map created_part (messages (fire p rng ev st)) = map created_part (messages st)"
    using kept_fire [of ev p rng st] by blast
  have b: "map created_part (messages (Popconfirm_onConfirm p rng env msg st)) =
       map created_part (messages st)"
    by (simp add: Popconfirm_onConfirm_def kept_retryFailedMessage)
  from a b kept_handleSend [of st p env uuid now] onmessage_identity [of p data st]
    onmessage_replaces [of p data decrypted parsed i st]
    onmessage_dropped [of p data e decrypted e' st]
  show ?thesis by blast
qed

theorem only_onmessage_rewrites_content_witness:
  "(\<forall>j data. Open 0 \<noteq> Message j data)
   \<and> map created_part (messages (fire defaultProps noRandom (Open 0) mounted)) =
       map created_part (messages mounted)
   \<and> decryptMessage (encryptionKey defaultProps) changedFrame = Inr changedFrame
   \<and> JSON_parse changedFrame =
       Inr (JObj [(ascii ''id'', JStr (ascii ''1'')), (ascii ''content'', JStr (ascii ''changed''))])
   \<and> (1::nat) < length (messages sentHello)
   \<and> messages sentHello ! 1 = hello
   \<and> messages (ws_onmessage defaultProps changedFrame sentHello) ! 1 =
       hello\<lparr>content := JStr (ascii ''changed''), status := Sent\<rparr>
   \<and> messages (ws_onmessage defaultProps changedFrame sentHello) ! 0 = messages sentHello ! 0
   \<and> JSON_parse (ascii ''nonsense'') = Inl SyntaxError
   \<and> messages (ws_onmessage defaultProps (ascii ''nonsense'') sentHello) = messages sentHello"
proof -
  let ?obj = "JObj [(ascii ''id'', JStr (ascii ''1'')), (ascii ''content'', JStr (ascii ''changed''))]"
  have a: "\<forall>j data. Open 0 \<noteq> Message j data" by simp
  have k: "decryptMessage (encryptionKey defaultProps) changedFrame = Inr changedFrame"
    by (simp add: defaultProps_def decryptMessage_def)
  have k2: "decryptMessage (encryptionKey defaultProps) (ascii ''nonsense'') = Inr (ascii ''nonsense'')"
    by (simp add: defaultProps_def decryptMessage_def)
  have pn: "JSON_parse (ascii ''nonsense'') = Inl SyntaxError" by code_simp
  have nn: "?obj \<noteq> JNull" by simp
  have l: "(1::nat) < length (messages sentHello)" by (simp add: sentHello_eq)
  have l0: "(0::nat) < length (messages sentHello)" by (simp add: sentHello_eq)
  have m1: "messages sentHello ! 1 = hello" by (simp add: sentHello_eq)
  have m0: "msg_id (messages sentHello ! 0) = ascii ''g''" by (simp add: sentHello_eq)
  have i1: "msg_id hello = ascii ''1''" by (simp add: hello_def)
  have n: "ascii ''1'' \<noteq> ascii ''g''" by (simp add: ascii_def)
  have g1: "get_prop ?obj (ascii ''id'') = JStr (ascii ''1'')"
    by (simp add: get_prop_def ascii_def)
  have g2: "get_prop ?obj (ascii ''content'') = JStr (ascii ''changed'')"
    by (simp add: get_prop_def ascii_def)
  note w0 = only_onmessage_rewrites_content
         [of "Open 0" defaultProps noRandom mounted firstRender "ascii ''1''" 0 hello
             changedFrame changedFrame ?obj 1 SyntaxError SyntaxError]
  from w0 a have c0: "map created_part (messages (fire defaultProps noRandom (Open 0) mounted)) =
       map created_part (messages mounted)" by blast
  note w1 = only_onmessage_rewrites_content
         [of "Open 0" defaultProps noRandom sentHello firstRender "ascii ''1''" 0 hello
             changedFrame changedFrame ?obj 1 SyntaxError SyntaxError]
  from w1 k parse_changed nn l
  have "messages (ws_onmessage defaultProps changedFrame sentHello) ! 1 =
          (if get_prop ?obj (ascii ''id'') = JStr (msg_id (messages sentHello ! 1))
           then (messages sentHello ! 1)\<lparr>content := get_prop ?obj (ascii ''content''), status := Sent\<rparr>
           else messages sentHello ! 1)" by blast
  then have c1: "messages (ws_onmessage defaultProps changedFrame sentHello) ! 1 =
       hello\<lparr>content := JStr (ascii ''changed''), status := Sent\<rparr>"
    unfolding m1 i1 g1 g2 by simp
  note w2 = only_onmessage_rewrites_content
         [of "Open 0" defaultProps noRandom sentHello firstRender "ascii ''1''" 0 hello
             changedFrame changedFrame ?obj 0 SyntaxError SyntaxError]
  from w2 k parse_changed nn l0
  have "messages (ws_onmessage defaultProps changedFrame sentHello) ! 0 =
          (if get_prop ?obj (ascii ''id'') = JStr (msg_id (messages sentHello ! 0))
           then (messages sentHello ! 0)\<lparr>content := get_prop ?obj (ascii ''content''), status := Sent\<rparr>
           else messages sentHello ! 0)" by blast
  then have c2: "messages (ws_onmessage defaultProps changedFrame sentHello) ! 0 = messages sentHello ! 0"
    unfolding m0 g1 using n by simp
  note w3 = only_onmessage_rewrites_content
         [of "Open 0" defaultProps noRandom sentHello firstRender "ascii ''1''" 0 hello
             "ascii ''nonsense''" "ascii ''nonsense''" ?obj 0 SyntaxError SyntaxError]
  from w3 k2 pn
  have c3: "messages (ws_onmessage defaultProps (ascii ''nonsense'') sentHello) = messages sentHello"
    by blast
  from a c0 k parse_changed l m1 c1 c2 pn c3 show ?thesis by blast
qed

end
